theory Spec2Isabelle
  imports Complex_Main
begin

section \<open>Failure model shared by all components\<close>

text \<open>
  The C++ sources stop a computation in four ways. A message followed by \<^verbatim>\<open>exit(1)\<close>
  (written directly, or through the macros \<^verbatim>\<open>TBTKExit\<close> and \<^verbatim>\<open>TBTKAssert\<close>) is
  \<open>Exit\<close> with the text that identifies the message (values streamed into a message are
  left out). \<^verbatim>\<open>std::vector::at\<close> outside the vector throws \<^verbatim>\<open>std::out_of_range\<close>, which
  nothing catches: \<open>OutOfRange\<close>. \<^verbatim>\<open>new T[n]\<close> with negative \<open>n\<close> throws:
  \<open>BadArrayNewLength\<close>. An access through a raw pointer outside the allocated array has no
  defined behaviour: \<open>OutOfBounds\<close>.

  \<^verbatim>\<open>double\<close> is modelled by \<^typ>\<open>real\<close> and \<^verbatim>\<open>complex<double>\<close> by \<^typ>\<open>complex\<close>
  without rounding in the property extractor and the FLEX solver; the arithmetic of the
  state tree, whose tests compare rounded results, is treated in its section. An
  \<^verbatim>\<open>int\<close> is the \<^typ>\<open>int\<close> it denotes, and the result of an addition or
  multiplication of \<^verbatim>\<open>int\<close>s is taken modulo \<open>2\<^sup>3\<^sup>2\<close> into the range of a 32-bit
  \<^verbatim>\<open>int\<close> (\<open>int32\<close>): the C++ standard leaves signed overflow undefined, and the
  compiled code wraps around.
\<close>

datatype error =
    Exit string
  | OutOfRange
  | BadArrayNewLength
  | OutOfBounds

definition int32 :: "int \<Rightarrow> int" where
  "int32 x = (x + 2147483648) mod 4294967296 - 2147483648"

text \<open>A counted \<^verbatim>\<open>for\<close> loop whose body can fail: the first failure ends the loop.\<close>

fun forEach :: "'a list \<Rightarrow> ('a \<Rightarrow> 's \<Rightarrow> error + 's) \<Rightarrow> 's \<Rightarrow> error + 's" where
  "forEach [] body s = Inr s"
| "forEach (x # xs) body s =
     (case body x s of Inl e \<Rightarrow> Inl e | Inr s' \<Rightarrow> forEach xs body s')"

section \<open>PropertyExtractorChebyshev\<close>

text \<open>\<^verbatim>\<open>Index\<close>: the vector \<^verbatim>\<open>indices\<close> of subindices.\<close>

type_synonym Index = "int list"

text \<open>
  The \<^verbatim>\<open>ChebyshevSolver\<close> is an external collaborator. The calls the extractor makes to set
  up and release the lookup table are recorded as a list of \<open>solverCall\<close>s; the numerical
  result it leaves in the Green's function buffer is a parameter
  \<open>cSolver to from n\<close>: element \<open>n\<close> of the buffer for targets \<open>to\<close> and source \<open>from\<close>.
\<close>

datatype solverCall =
    GenerateLookupTable int int
  | LoadLookupTableGPU
  | DestroyLookupTableGPU

type_synonym solver = "Index list \<Rightarrow> Index \<Rightarrow> nat \<Rightarrow> complex"

record PropertyExtractorChebyshev =
  numCoefficients :: int
  energyResolution :: int
  useGPUToCalculateCoefficients :: bool
  useGPUToGenerateGreensFunctions :: bool
  useLookupTable :: bool

text \<open>The constructor: the new object and the calls made on the solver, or the fatal error.\<close>

definition PropertyExtractorChebyshev_ctor ::
  "int \<Rightarrow> int \<Rightarrow> bool \<Rightarrow> bool \<Rightarrow> bool \<Rightarrow> error + (PropertyExtractorChebyshev \<times> solverCall list)" where
  "PropertyExtractorChebyshev_ctor numCoefficients' energyResolution'
       useGPUToCalculateCoefficients' useGPUToGenerateGreensFunctions' useLookupTable' =
     (let this = \<lparr> numCoefficients = numCoefficients',
                    energyResolution = energyResolution',
                    useGPUToCalculateCoefficients = useGPUToCalculateCoefficients',
                    useGPUToGenerateGreensFunctions = useGPUToGenerateGreensFunctions',
                    useLookupTable = useLookupTable' \<rparr>
      in if useLookupTable' then
           Inr (this, GenerateLookupTable numCoefficients' energyResolution'
                        # (if useGPUToGenerateGreensFunctions' then [LoadLookupTableGPU] else []))
         else if useGPUToGenerateGreensFunctions' then
           Inl (Exit ''Error in PropertyExtractorChebyshev: useLookupTable cannot be false if useGPUToGenerateGreensFunction is true.'')
         else Inr (this, []))"

definition calculateGreensFunctions ::
  "solver \<Rightarrow> PropertyExtractorChebyshev \<Rightarrow> Index list \<Rightarrow> Index \<Rightarrow> error + complex list" where
  "calculateGreensFunctions cSolver this to from =
     (let size = energyResolution this * int (length to)
      in if size < 0 then Inl BadArrayNewLength
         else if useGPUToCalculateCoefficients this then
           Inr (map (cSolver to from) [0..<nat size])
         else
           Inl (Exit ''Error in PropertyExtractorChebyshev::calculateGreensFunctions: CPU generation of coefficients not yet supported.''))"

definition calculateGreensFunction ::
  "solver \<Rightarrow> PropertyExtractorChebyshev \<Rightarrow> Index \<Rightarrow> Index \<Rightarrow> error + complex list" where
  "calculateGreensFunction cSolver this to from = calculateGreensFunctions cSolver this [to] from"

subsection \<open>The iteration engine \<^verbatim>\<open>calculate\<close>\<close>

text \<open>
  The scan for the last wildcard:
  \<^verbatim>\<open>for(; currentSubindex >= 0; currentSubindex--) if(pattern.indices.at(currentSubindex) < 0) break;\<close>
\<close>

function scanSubindex :: "Index \<Rightarrow> int \<Rightarrow> int" where
  "scanSubindex pattern currentSubindex =
     (if currentSubindex \<ge> 0 then
        (if pattern ! nat currentSubindex < 0 then currentSubindex
         else scanSubindex pattern (currentSubindex - 1))
      else currentSubindex)"
  by pat_completeness auto
termination
  by (relation "measure (\<lambda>(pattern, currentSubindex). nat (currentSubindex + 1))") auto

declare scanSubindex.simps [simp del]

lemma scanSubindex_range:
  "-1 \<le> c \<Longrightarrow> -1 \<le> scanSubindex p c \<and> scanSubindex p c \<le> c"
proof (induction p c rule: scanSubindex.induct)
  case (1 p c)
  show ?case
  proof (cases "c \<ge> 0 \<and> \<not> p ! nat c < 0")
    case True
    with 1 have ih: "-1 \<le> scanSubindex p (c - 1) \<and> scanSubindex p (c - 1) \<le> c - 1" by simp
    from True have "scanSubindex p c = scanSubindex p (c - 1)"
      by (subst scanSubindex.simps) simp
    with ih show ?thesis by simp
  next
    case False
    then have "scanSubindex p c = c"
      by (subst scanSubindex.simps) auto
    with 1 show ?thesis by simp
  qed
qed

lemma scanSubindex_negative:
  "scanSubindex p c \<noteq> -1 \<Longrightarrow> -1 \<le> c \<Longrightarrow> p ! nat (scanSubindex p c) < 0"
proof (induction p c rule: scanSubindex.induct)
  case (1 p c)
  show ?case
  proof (cases "c \<ge> 0")
    case True
    show ?thesis
    proof (cases "p ! nat c < 0")
      case True
      with \<open>c \<ge> 0\<close> show ?thesis by (subst scanSubindex.simps) simp
    next
      case False
      with \<open>c \<ge> 0\<close> have eq: "scanSubindex p c = scanSubindex p (c - 1)"
        by (subst scanSubindex.simps) simp
      with 1 \<open>c \<ge> 0\<close> False show ?thesis by simp
    qed
  next
    case False
    with 1 have "c = -1" by simp
    with 1 show ?thesis by (simp add: scanSubindex.simps)
  qed
qed

definition negcount :: "Index \<Rightarrow> nat" where
  "negcount pattern = length (filter (\<lambda>x. x < 0) pattern)"

lemma negcount_update:
  "k < length p \<Longrightarrow> p ! k < 0 \<Longrightarrow> 0 \<le> v \<Longrightarrow> negcount (p[k := v]) < negcount p"
  unfolding negcount_def
proof (induction p arbitrary: k)
  case Nil
  then show ?case by simp
next
  case (Cons a p)
  then show ?case by (cases k) auto
qed

text \<open>
  \<^verbatim>\<open>calculate\<close> resolves the last wildcard of \<open>pattern\<close> to each coordinate of its range and
  recurses; with no wildcard left it invokes the callback. The sentinel \<^verbatim>\<open>IDX_SUM_ALL\<close>
  is declared in a header that is not part of the sources, so its value is a parameter.
  The loop state is the memory the callback works on and \<^verbatim>\<open>currentOffset\<close>.
\<close>

function calculate ::
  "('m \<Rightarrow> Index \<Rightarrow> int \<Rightarrow> error + 'm) \<Rightarrow> int \<Rightarrow> 'm \<Rightarrow> Index \<Rightarrow> Index \<Rightarrow> int \<Rightarrow> int \<Rightarrow> error + 'm" where
  "calculate callback IDX_SUM_ALL memory pattern ranges currentOffset offsetMultiplier =
     (let currentSubindex = scanSubindex pattern (int (length pattern) - 1)
      in if currentSubindex = -1 then callback memory pattern currentOffset
         else if \<not> nat currentSubindex < length ranges then Inl OutOfRange
         else
           (let nextOffsetMultiplier =
                  (if pattern ! nat currentSubindex < IDX_SUM_ALL
                   then int32 (offsetMultiplier * ranges ! nat currentSubindex)
                   else offsetMultiplier);
                isSumIndex = (pattern ! nat currentSubindex = IDX_SUM_ALL)
            in map_sum id fst
                 (forEach [0..<nat (ranges ! nat currentSubindex)]
                    (\<lambda>n (memory, currentOffset).
                       case calculate callback IDX_SUM_ALL memory
                              (pattern[nat currentSubindex := int n]) ranges
                              currentOffset nextOffsetMultiplier of
                         Inl e \<Rightarrow> Inl e
                       | Inr memory' \<Rightarrow>
                           Inr (memory',
                                if isSumIndex then currentOffset
                                else int32 (currentOffset + offsetMultiplier)))
                    (memory, currentOffset))))"
  by pat_completeness auto
termination
proof (relation "measure (\<lambda>(callback, s, memory, pattern, ranges, off, mult). negcount pattern)")
  show "wf (measure (\<lambda>(callback :: 'm \<Rightarrow> Index \<Rightarrow> int \<Rightarrow> error + 'm, s :: int, memory :: 'm,
                       pattern :: Index, ranges :: Index, off :: int, mult :: int).
                      negcount pattern))"
    by simp
next
  fix callback :: "'m \<Rightarrow> Index \<Rightarrow> int \<Rightarrow> error + 'm"
  fix IDX_SUM_ALL :: int and memory :: 'm and pattern ranges :: Index
  fix currentOffset offsetMultiplier c :: int
  fix nm :: int and isSum :: bool and n :: nat and st :: "'m \<times> int" and mem :: 'm and off :: int
  assume c: "c = scanSubindex pattern (int (length pattern) - 1)" and ne: "c \<noteq> -1"
  have r: "-1 \<le> c \<and> c \<le> int (length pattern) - 1"
    unfolding c by (rule scanSubindex_range) simp
  have neg: "pattern ! nat c < 0"
    using scanSubindex_negative [of pattern "int (length pattern) - 1"] ne c by simp
  from r ne have "nat c < length pattern" by linarith
  with neg have "negcount (pattern[nat c := int n]) < negcount pattern"
    by (intro negcount_update) simp_all
  then show "((callback, IDX_SUM_ALL, mem, pattern[nat c := int n], ranges, off, nm),
              (callback, IDX_SUM_ALL, memory, pattern, ranges, currentOffset, offsetMultiplier))
             \<in> measure (\<lambda>(callback, s, memory, pattern, ranges, off, mult). negcount pattern)"
    by simp
qed

declare calculate.simps [simp del]

subsection \<open>Local density of states\<close>

text \<open>
  \<^verbatim>\<open>calculateLDOSCallback\<close>: \<^verbatim>\<open>ldos[energyResolution*offset + n] -= imag(greensFunction[n])/M_PI\<close>
  for every \<open>n\<close> below the energy resolution. \<^verbatim>\<open>ldos\<close> is a raw array, so a write outside
  it is \<open>OutOfBounds\<close>.
\<close>

definition calculateLDOSCallback ::
  "solver \<Rightarrow> PropertyExtractorChebyshev \<Rightarrow> real list \<Rightarrow> Index \<Rightarrow> int \<Rightarrow> error + real list" where
  "calculateLDOSCallback cSolver cb_this ldos index offset =
     (case calculateGreensFunction cSolver cb_this index index of
        Inl e \<Rightarrow> Inl e
      | Inr greensFunction \<Rightarrow>
          forEach [0..<nat (energyResolution cb_this)]
            (\<lambda>n ldos.
               let i = int32 (int32 (energyResolution cb_this * offset) + int n)
               in if 0 \<le> i \<and> i < int (length ldos)
                  then Inr (ldos[nat i := ldos ! nat i - Im (greensFunction ! n) / pi])
                  else Inl OutOfBounds)
            ldos)"

text \<open>
  The first loop of \<^verbatim>\<open>calculateLDOS\<close>: every concrete coordinate of the pattern sets its
  range to 1. \<^verbatim>\<open>ranges.indices.at(n)\<close> throws when \<open>ranges\<close> is shorter than the pattern.
\<close>

definition forceRanges :: "Index \<Rightarrow> Index \<Rightarrow> error + Index" where
  "forceRanges pattern ranges =
     forEach [0..<length pattern]
       (\<lambda>n ranges.
          if pattern ! n \<ge> 0 then
            (if n < length ranges then Inr (ranges[n := 1]) else Inl OutOfRange)
          else Inr ranges)
       ranges"

text \<open>
  The second loop: the product of the ranges of the subindices below \<^verbatim>\<open>IDX_SUM_ALL\<close>,
  accumulated in the \<^verbatim>\<open>int\<close> variable \<^verbatim>\<open>ldosArraySize\<close>.
  \<^verbatim>\<open>pattern.indices.at(n)\<close> throws when the pattern is shorter than \<open>ranges\<close>.
\<close>

definition arraySize :: "int \<Rightarrow> Index \<Rightarrow> Index \<Rightarrow> error + int" where
  "arraySize IDX_SUM_ALL pattern ranges =
     forEach [0..<length ranges]
       (\<lambda>n ldosArraySize.
          if n < length pattern then
            (if pattern ! n < IDX_SUM_ALL then Inr (int32 (ldosArraySize * ranges ! n))
             else Inr ldosArraySize)
          else Inl OutOfRange)
       1"

definition calculateLDOS ::
  "solver \<Rightarrow> int \<Rightarrow> PropertyExtractorChebyshev \<Rightarrow> Index \<Rightarrow> Index \<Rightarrow> error + real list" where
  "calculateLDOS cSolver IDX_SUM_ALL this pattern ranges =
     (case forceRanges pattern ranges of
        Inl e \<Rightarrow> Inl e
      | Inr ranges \<Rightarrow>
          (case arraySize IDX_SUM_ALL pattern ranges of
             Inl e \<Rightarrow> Inl e
           | Inr ldosArraySize \<Rightarrow>
               if ldosArraySize < 0 then Inl BadArrayNewLength
               else calculate (calculateLDOSCallback cSolver this) IDX_SUM_ALL
                      (replicate (nat ldosArraySize) 0) pattern ranges 0 1))"

subsection \<open>Spin-polarized local density of states\<close>

text \<open>
  \<^verbatim>\<open>calculateSP_LDOSCallback\<close>. The member \<^verbatim>\<open>hint\<close> holds the position of the spin
  subindex; here it is the argument \<open>spinIndex\<close>. For each of the four spin sectors
  \<^verbatim>\<open>sp_ldos[4*energyResolution*offset + 4*e + n] = greensFunction[e]\<close>.
\<close>

definition calculateSP_LDOSCallback ::
  "solver \<Rightarrow> PropertyExtractorChebyshev \<Rightarrow> nat \<Rightarrow> complex list \<Rightarrow> Index \<Rightarrow> int
     \<Rightarrow> error + complex list" where
  "calculateSP_LDOSCallback cSolver cb_this spinIndex sp_ldos index offset =
     forEach [0..<4]
       (\<lambda>n sp_ldos.
          if \<not> spinIndex < length index then Inl OutOfRange
          else
            (case calculateGreensFunction cSolver cb_this
                    (index[spinIndex := int n div 2]) (index[spinIndex := int n mod 2]) of
               Inl e \<Rightarrow> Inl e
             | Inr greensFunction \<Rightarrow>
                 forEach [0..<nat (energyResolution cb_this)]
                   (\<lambda>e sp_ldos.
                      let i = int32 (int32 (int32 (int32 (4 * energyResolution cb_this) * offset)
                                             + int32 (4 * int e)) + int n)
                      in if 0 \<le> i \<and> i < int (length sp_ldos)
                         then Inr (sp_ldos[nat i := greensFunction ! e])
                         else Inl OutOfBounds)
                   sp_ldos))
       sp_ldos"

text \<open>
  \<^verbatim>\<open>calculateSP_LDOS\<close> returns what was written to \<^verbatim>\<open>cout\<close> and the returned pointer
  (\<open>None\<close> for \<^verbatim>\<open>NULL\<close>). The sentinel \<^verbatim>\<open>IDX_SPIN\<close> is a parameter, like
  \<^verbatim>\<open>IDX_SUM_ALL\<close>.
\<close>

definition calculateSP_LDOS ::
  "solver \<Rightarrow> int \<Rightarrow> int \<Rightarrow> PropertyExtractorChebyshev \<Rightarrow> Index \<Rightarrow> Index
     \<Rightarrow> error + (string list \<times> complex list option)" where
  "calculateSP_LDOS cSolver IDX_SUM_ALL IDX_SPIN this pattern ranges =
     (case find (\<lambda>n. pattern ! n = IDX_SPIN) [0..<length pattern] of
        None \<Rightarrow>
          Inr ([''Error in PropertyExtractorChebyshev::calculateSP_LDOS: No spin index indicated.''],
               None)
      | Some hint \<Rightarrow>
          if \<not> hint < length ranges then Inl OutOfRange
          else
            (let pattern = pattern[hint := 0]; ranges = ranges[hint := 1]
             in case forceRanges pattern ranges of
                  Inl e \<Rightarrow> Inl e
                | Inr ranges \<Rightarrow>
                    (case arraySize IDX_SUM_ALL pattern ranges of
                       Inl e \<Rightarrow> Inl e
                     | Inr sp_ldosArraySize \<Rightarrow>
                         if int32 (4 * sp_ldosArraySize) < 0 then Inl BadArrayNewLength
                         else
                           (case calculate (calculateSP_LDOSCallback cSolver this hint)
                                   IDX_SUM_ALL (replicate (nat (int32 (4 * sp_ldosArraySize))) 0)
                                   pattern ranges 0 1 of
                              Inl e \<Rightarrow> Inl e
                            | Inr sp_ldos \<Rightarrow> Inr ([], Some sp_ldos)))))"

section \<open>SusceptibilityCalculator\<close>

text \<open>
  An \<^verbatim>\<open>IndexedDataTree\<close> is a finite map from an index to the stored vector; \<^verbatim>\<open>clear()\<close>
  leaves the empty map. The type of an interaction amplitude is a parameter \<open>'ia\<close>.
\<close>

type_synonym IndexedDataTree = "Index \<rightharpoonup> complex list"

datatype Mode = Lindhard | Matsubara

datatype EnergyType = Real | Imaginary | Complex

record 'ia SusceptibilityCalculator =
  susceptibilityTree :: IndexedDataTree
  rpaSusceptibilityTree :: IndexedDataTree
  rpaChargeSusceptibilityTree :: IndexedDataTree
  rpaSpinSusceptibilityTree :: IndexedDataTree
  susceptibilityMode :: Mode
  energyType :: EnergyType
  susceptibilityEnergies :: "complex list"
  susceptibilityEnergiesAreInversionSymmetric :: bool
  susceptibilityIsSafeFromPoles :: bool
  interactionAmplitudes :: "'ia list"
  interactionAmplitudesCharge :: "'ia list"
  interactionAmplitudesSpin :: "'ia list"
  interactionAmplitudesAreGenerated :: bool
  kPlusQLookupTable :: "int list option"
  fermiDiracLookupTable :: "real list option"
  isInitialized :: bool
  isMaster :: bool
  U :: complex
  Up :: complex
  J :: complex
  Jp :: complex

definition setInteractionAmplitudes ::
  "'ia list \<Rightarrow> 'ia SusceptibilityCalculator \<Rightarrow> 'ia SusceptibilityCalculator" where
  "setInteractionAmplitudes ias this = this\<lparr> interactionAmplitudes := ias, isInitialized := False \<rparr>"

definition setSusceptibilityEnergies ::
  "complex list \<Rightarrow> 'ia SusceptibilityCalculator \<Rightarrow> 'ia SusceptibilityCalculator" where
  "setSusceptibilityEnergies energies this =
     this\<lparr> susceptibilityEnergies := energies,
           susceptibilityTree := Map.empty,
           rpaSusceptibilityTree := Map.empty,
           rpaChargeSusceptibilityTree := Map.empty,
           rpaSpinSusceptibilityTree := Map.empty \<rparr>"

definition setU :: "complex \<Rightarrow> 'ia SusceptibilityCalculator \<Rightarrow> 'ia SusceptibilityCalculator" where
  "setU U' this =
     this\<lparr> U := U',
           rpaSusceptibilityTree := Map.empty,
           rpaChargeSusceptibilityTree := Map.empty,
           rpaSpinSusceptibilityTree := Map.empty,
           interactionAmplitudesAreGenerated := False \<rparr>"

definition setUp :: "complex \<Rightarrow> 'ia SusceptibilityCalculator \<Rightarrow> 'ia SusceptibilityCalculator" where
  "setUp Up' this =
     this\<lparr> Up := Up',
           rpaSusceptibilityTree := Map.empty,
           rpaChargeSusceptibilityTree := Map.empty,
           rpaSpinSusceptibilityTree := Map.empty,
           interactionAmplitudesAreGenerated := False \<rparr>"

definition setJ :: "complex \<Rightarrow> 'ia SusceptibilityCalculator \<Rightarrow> 'ia SusceptibilityCalculator" where
  "setJ J' this =
     this\<lparr> J := J',
           rpaSusceptibilityTree := Map.empty,
           rpaChargeSusceptibilityTree := Map.empty,
           rpaSpinSusceptibilityTree := Map.empty,
           interactionAmplitudesAreGenerated := False \<rparr>"

definition setJp :: "complex \<Rightarrow> 'ia SusceptibilityCalculator \<Rightarrow> 'ia SusceptibilityCalculator" where
  "setJp Jp' this =
     this\<lparr> Jp := Jp',
           rpaSusceptibilityTree := Map.empty,
           rpaChargeSusceptibilityTree := Map.empty,
           rpaSpinSusceptibilityTree := Map.empty,
           interactionAmplitudesAreGenerated := False \<rparr>"

section \<open>StateTreeNode\<close>

text \<open>
  Modelled from the spec: \<^verbatim>\<open>AbstractState\<close> (its header is not part of the sources). A
  state has coordinates and an extent; it is local (finite extent) or non-local (infinite
  extent). The tree stores pointers to states, so a state carries an identity. A test
  \<^verbatim>\<open>hasFiniteExtent()\<close> is the case distinction on the extent.
\<close>

datatype extent_value = Finite real | Infinity

text \<open>
  The doubles of the tree. A finite \<^verbatim>\<open>double\<close> is the real number it denotes, so the
  comparisons and \<^verbatim>\<open>abs\<close> are exact. The result of an addition, subtraction,
  multiplication, division, \<^verbatim>\<open>pow(x, 2)\<close> or \<^verbatim>\<open>sqrt\<close> is the double the machine
  rounds to: these operations are a parameter \<open>fp\<close> of every function of the tree, and
  nothing is assumed of them, so what is proved for every \<open>fp\<close> holds for the rounding
  of the machine. \<open>exact\<close> is the arithmetic that does not round. Results that are not
  finite (overflow, not-a-number) are outside the model, and so is an evaluation that
  keeps intermediate results in a wider format.
\<close>

record arithmetic =
  fadd :: "real \<Rightarrow> real \<Rightarrow> real"
  fsub :: "real \<Rightarrow> real \<Rightarrow> real"
  fmul :: "real \<Rightarrow> real \<Rightarrow> real"
  fdiv :: "real \<Rightarrow> real \<Rightarrow> real"
  fpow2 :: "real \<Rightarrow> real"
  fsqrt :: "real \<Rightarrow> real"

definition exact :: arithmetic where
  "exact = \<lparr> fadd = (+), fsub = (-), fmul = (*), fdiv = (/), fpow2 = (\<lambda>x. x\<^sup>2), fsqrt = sqrt \<rparr>"

record AbstractState =
  stateID :: nat
  coordinates :: "real list"
  extent :: extent_value

text \<open>The members of a node, in the order they are used below.\<close>

datatype StateTreeNode =
  StateTreeNode
    (stateTreeNodes: "StateTreeNode list")
    (states: "AbstractState list")
    (center: "real list")
    (halfSize: real)
    (maxDepth: int)
    (numSpacePartitions: int)

text \<open>
  The constructors from a center: \<^verbatim>\<open>numSpacePartitions(pow(2, center.size()))\<close>, where
  \<^verbatim>\<open>center\<close> is the constructor's argument.
\<close>

definition StateTreeNode_ctor :: "real list \<Rightarrow> real \<Rightarrow> int \<Rightarrow> StateTreeNode" where
  "StateTreeNode_ctor center' halfSize' maxDepth' =
     StateTreeNode [] [] center' halfSize' maxDepth' (2 ^ length center')"

definition pushState :: "AbstractState \<Rightarrow> StateTreeNode \<Rightarrow> StateTreeNode" where
  "pushState s node =
     StateTreeNode (stateTreeNodes node) (states node @ [s]) (center node) (halfSize node)
       (maxDepth node) (numSpacePartitions node)"

definition setChildren :: "StateTreeNode list \<Rightarrow> StateTreeNode \<Rightarrow> StateTreeNode" where
  "setChildren children node =
     StateTreeNode children (states node) (center node) (halfSize node)
       (maxDepth node) (numSpacePartitions node)"

text \<open>
  The child nodes a node creates:
  \<^verbatim>\<open>subCenter.push_back(center.at(c) + ((n/(1 << c))%2 - 1/2.)*halfSize)\<close> for each of the
  \<^verbatim>\<open>numSpacePartitions\<close> values of \<open>n\<close>.
\<close>

definition createChildren :: "arithmetic \<Rightarrow> StateTreeNode \<Rightarrow> StateTreeNode list" where
  "createChildren fp node =
     map (\<lambda>n. StateTreeNode_ctor
                (map (\<lambda>c. fadd fp (center node ! c)
                           (fmul fp (fsub fp (real_of_int ((int n div 2 ^ c) mod 2)) (fdiv fp 1 2))
                              (halfSize node)))
                   [0..<length (center node)])
                (fdiv fp (halfSize node) 2) (maxDepth node - 1))
       [0..<nat (numSpacePartitions node)]"

definition largestRelativeCoordinate :: "arithmetic \<Rightarrow> real list \<Rightarrow> real list \<Rightarrow> real" where
  "largestRelativeCoordinate fp stateCoordinates center' =
     fold (\<lambda>r largest. if largest < \<bar>r\<bar> then \<bar>r\<bar> else largest)
       (map (\<lambda>n. fsub fp (stateCoordinates ! n) (center' ! n)) [0..<length center']) 0"

text \<open>
  The loop over the child nodes: the first child that takes the state ends it. A child
  that refuses the state is left as it was.
\<close>

fun tryChildren ::
  "(StateTreeNode \<Rightarrow> (error + bool \<times> StateTreeNode) option) \<Rightarrow> StateTreeNode list
     \<Rightarrow> (error + bool \<times> StateTreeNode list) option" where
  "tryChildren f [] = Some (Inr (False, []))"
| "tryChildren f (child # children) =
     (case f child of
        None \<Rightarrow> None
      | Some (Inl e) \<Rightarrow> Some (Inl e)
      | Some (Inr (added, child')) \<Rightarrow>
          if added then Some (Inr (True, child' # children))
          else
            (case tryChildren f children of
               None \<Rightarrow> None
             | Some (Inl e) \<Rightarrow> Some (Inl e)
             | Some (Inr (added', children')) \<Rightarrow> Some (Inr (added', child' # children'))))"

text \<open>
  \<^verbatim>\<open>addRecursive\<close> descends into child nodes it creates itself, and with a negative
  \<^verbatim>\<open>maxDepth\<close> nothing bounds the descent. The model counts the nested calls down from
  \<open>fuel\<close>; \<open>None\<close> means that the fuel did not suffice. The result is the returned
  \<^verbatim>\<open>bool\<close> and the node after the call.
\<close>

fun addRecursive ::
  "arithmetic \<Rightarrow> nat \<Rightarrow> StateTreeNode \<Rightarrow> AbstractState
     \<Rightarrow> (error + bool \<times> StateTreeNode) option" where
  "addRecursive fp 0 node state = None"
| "addRecursive fp (Suc fuel) node state =
     (case extent state of
        Infinity \<Rightarrow> Some (Inr (True, pushState state node))
      | Finite e \<Rightarrow>
          if length (coordinates state) < length (center node) then Some (Inl OutOfRange)
          else if fadd fp (largestRelativeCoordinate fp (coordinates state) (center node)) e
                    > halfSize node
          then Some (Inr (False, node))
          else if maxDepth node = 0 then Some (Inr (True, pushState state node))
          else
            (let node = (if stateTreeNodes node = []
                         then setChildren (createChildren fp node) node else node)
             in case tryChildren (\<lambda>child. addRecursive fp fuel child state)
                       (stateTreeNodes node) of
                  None \<Rightarrow> None
                | Some (Inl e) \<Rightarrow> Some (Inl e)
                | Some (Inr (added, children)) \<Rightarrow>
                    Some (Inr (True,
                      if added then setChildren children node
                      else pushState state (setChildren children node)))))"

definition add ::
  "arithmetic \<Rightarrow> nat \<Rightarrow> StateTreeNode \<Rightarrow> AbstractState \<Rightarrow> (error + StateTreeNode) option" where
  "add fp fuel node state =
     (if length (coordinates state) \<noteq> length (center node)
      then Some (Inl (Exit ''StateTreeNode::add(): Incompatible dimenstions.''))
      else
        (case addRecursive fp fuel node state of
           None \<Rightarrow> None
         | Some (Inl e) \<Rightarrow> Some (Inl e)
         | Some (Inr (added, node')) \<Rightarrow>
             if added then Some (Inr node')
             else Some (Inl (Exit ''StateTreeNode::add(): Unable to add state to state tree.''))))"

subsection \<open>The constructor from a set of states\<close>

text \<open>
  The first loop of the constructor. The asserted expression is the assignment
  \<^verbatim>\<open>numCoordinates = states.at(n)->getCoordinates().size()\<close>: it stores the dimension of
  state \<open>n\<close> and is false only when that dimension is 0.
\<close>

definition assertDimensions :: "AbstractState list \<Rightarrow> nat \<Rightarrow> error + nat" where
  "assertDimensions rest numCoordinates =
     forEach rest
       (\<lambda>s numCoordinates.
          let numCoordinates = length (coordinates s)
          in if numCoordinates \<noteq> 0 then Inr numCoordinates
             else Inl (Exit ''StateTreeNode::StateTreeNode(): Unable to handle StateSets containing states with different dimensions.''))
       numCoordinates"

text \<open>The corners a single state contributes, for the first \<open>numCoordinates\<close> axes.\<close>

definition stateBounds ::
  "arithmetic \<Rightarrow> nat \<Rightarrow> AbstractState \<Rightarrow> real \<Rightarrow> error + (real list \<times> real list)" where
  "stateBounds fp numCoordinates s e =
     (if length (coordinates s) < numCoordinates then Inl OutOfRange
      else Inr (map (\<lambda>c. fsub fp (coordinates s ! c) e) [0..<numCoordinates],
                map (\<lambda>c. fadd fp (coordinates s ! c) e) [0..<numCoordinates]))"

text \<open>
  The loop that widens \<^verbatim>\<open>min\<close> and \<^verbatim>\<open>max\<close> by one state; \<^verbatim>\<open>min.at(c)\<close> is read
  before the coordinate of the state.
\<close>

definition widen ::
  "arithmetic \<Rightarrow> nat \<Rightarrow> AbstractState \<Rightarrow> real list \<times> real list
     \<Rightarrow> error + (real list \<times> real list)" where
  "widen fp numCoordinates s box =
     (case extent s of
        Infinity \<Rightarrow> Inr box
      | Finite e \<Rightarrow>
          forEach [0..<numCoordinates]
            (\<lambda>c (min', max').
               if \<not> c < length min' \<or> \<not> c < length (coordinates s) \<or> \<not> c < length max'
               then Inl OutOfRange
               else Inr (if min' ! c > fsub fp (coordinates s ! c) e
                         then min'[c := fsub fp (coordinates s ! c) e] else min',
                         if max' ! c < fadd fp (coordinates s ! c) e
                         then max'[c := fadd fp (coordinates s ! c) e] else max'))
            box)"

text \<open>
  \<^verbatim>\<open>min\<close> and \<^verbatim>\<open>max\<close>: started from the first state with finite extent and then
  widened by that state and all states after it; zeros, one for each coordinate of state
  0 (\<open>dimension0\<close>), when no state has finite extent.
\<close>

fun boundingBox ::
  "arithmetic \<Rightarrow> nat \<Rightarrow> nat \<Rightarrow> AbstractState list \<Rightarrow> error + (real list \<times> real list)" where
  "boundingBox fp dimension0 numCoordinates [] =
     Inr (replicate dimension0 0, replicate dimension0 0)"
| "boundingBox fp dimension0 numCoordinates (s # rest) =
     (case extent s of
        Infinity \<Rightarrow> boundingBox fp dimension0 numCoordinates rest
      | Finite e \<Rightarrow>
          (case stateBounds fp numCoordinates s e of
             Inl err \<Rightarrow> Inl err
           | Inr box \<Rightarrow> forEach (s # rest) (widen fp numCoordinates) box))"

text \<open>The loop that adds the states to the new root, one after the other.\<close>

fun addAll ::
  "arithmetic \<Rightarrow> nat \<Rightarrow> StateTreeNode \<Rightarrow> AbstractState list
     \<Rightarrow> (error + StateTreeNode) option" where
  "addAll fp fuel node [] = Some (Inr node)"
| "addAll fp fuel node (s # sts) =
     (case add fp fuel node s of
        None \<Rightarrow> None
      | Some (Inl e) \<Rightarrow> Some (Inl e)
      | Some (Inr node') \<Rightarrow> addAll fp fuel node' sts)"

text \<open>
  The constructor \<^verbatim>\<open>StateTreeNode(const StateSet&, int)\<close>. Its initializer list is
  \<^verbatim>\<open>numSpacePartitions(pow(2, center.size()))\<close> too, but this constructor has no argument
  \<^verbatim>\<open>center\<close>: the expression reads the member, which is still the empty vector when the
  initializer runs (the class declaration is not part of the sources; the model takes the
  member \<^verbatim>\<open>center\<close> to be declared, and so default-constructed, before
  \<^verbatim>\<open>numSpacePartitions\<close>). The root therefore has \<open>2 ^ 0\<close> space partitions.
\<close>

definition StateTreeNode_fromStateSet ::
  "arithmetic \<Rightarrow> nat \<Rightarrow> AbstractState list \<Rightarrow> int \<Rightarrow> (error + StateTreeNode) option" where
  "StateTreeNode_fromStateSet fp fuel sts maxDepth' =
     (case sts of
        [] \<Rightarrow> Some (Inl OutOfRange)
      | state0 # rest \<Rightarrow>
        (case assertDimensions rest (length (coordinates state0)) of
           Inl e \<Rightarrow> Some (Inl e)
         | Inr numCoordinates \<Rightarrow>
             (case boundingBox fp (length (coordinates state0)) numCoordinates sts of
                Inl e \<Rightarrow> Some (Inl e)
              | Inr (min', max') \<Rightarrow>
                  if length min' < numCoordinates then Some (Inl OutOfRange)
                  else
                    addAll fp fuel
                      (StateTreeNode [] []
                         (map (\<lambda>n. fdiv fp (fadd fp (min' ! n) (max' ! n)) 2) [0..<numCoordinates])
                         (fold (\<lambda>n halfSize'.
                                  if halfSize' < fdiv fp (fsub fp (max' ! n) (min' ! n)) 2
                                  then fdiv fp (fsub fp (max' ! n) (min' ! n)) 2 else halfSize')
                            [0..<numCoordinates] 0)
                         maxDepth' (2 ^ length ([] :: real list)))
                      sts)))"

subsection \<open>Overlap queries\<close>

lemma forEach_cong [fundef_cong]:
  "xs = ys \<Longrightarrow> s = t \<Longrightarrow> (\<And>x u. x \<in> set ys \<Longrightarrow> f x u = g x u)
     \<Longrightarrow> forEach xs f s = forEach ys g t"
proof (induction ys arbitrary: xs s t)
  case Nil
  then show ?case by simp
next
  case (Cons y ys)
  then show ?case by (auto split: sum.splits)
qed






section \<open>FLEX\<close>

datatype State =
    NotYetStarted
  | GreensFunctionCalculated
  | BareSusceptibilityCalculated
  | RPASusceptibilitiesCalculated
  | InteractionVertexCalculated
  | SelfEnergyCalculated

datatype Norm = Norm_Max | Norm_L2

text \<open>
  The members of the solver. A Green's function is its data vector; the other properties
  are values of a type \<open>'p\<close> the solver only passes on. A \<^verbatim>\<open>double\<close> that is the result
  of a division is \<open>None\<close> when the divisor is zero (the quotient is then infinite or not
  a number, and every comparison \<^verbatim>\<open><\<close> with it is false). The member \<^verbatim>\<open>tolerance\<close> is
  declared in the header, which is not part of the sources; the constructor does not set
  it, so it is an argument of \<open>FLEX_ctor\<close>. The members \<^verbatim>\<open>U\<close>, \<^verbatim>\<open>J\<close> and
  \<^verbatim>\<open>norm\<close> are \<open>interactionU\<close>, \<open>interactionJ\<close> and \<open>flexNorm\<close> here.
\<close>

record 'p FLEX =
  lowerFermionicMatsubaraEnergyIndex :: int
  upperFermionicMatsubaraEnergyIndex :: int
  lowerBosonicMatsubaraEnergyIndex :: int
  upperBosonicMatsubaraEnergyIndex :: int
  interactionU :: real
  interactionJ :: real
  state :: State
  maxIterations :: nat
  flexNorm :: Norm
  tolerance :: real
  convergenceParameter :: "real option"
  greensFunction0 :: "complex list"
  greensFunction :: "complex list"
  oldGreensFunction :: "complex list"
  bareSusceptibility :: "'p option"
  rpaChargeSusceptibility :: "'p option"
  rpaSpinSusceptibility :: "'p option"
  interactionVertex :: "'p option"
  selfEnergy :: "'p option"

definition FLEX_ctor :: "real \<Rightarrow> 'p FLEX" where
  "FLEX_ctor tolerance' =
     \<lparr> lowerFermionicMatsubaraEnergyIndex = -1,
       upperFermionicMatsubaraEnergyIndex = 1,
       lowerBosonicMatsubaraEnergyIndex = 0,
       upperBosonicMatsubaraEnergyIndex = 0,
       interactionU = 0,
       interactionJ = 0,
       state = NotYetStarted,
       maxIterations = 1,
       flexNorm = Norm_Max,
       tolerance = tolerance',
       convergenceParameter = Some 0,
       greensFunction0 = [],
       greensFunction = [],
       oldGreensFunction = [],
       bareSusceptibility = None,
       rpaChargeSusceptibility = None,
       rpaSpinSusceptibility = None,
       interactionVertex = None,
       selfEnergy = None \<rparr>"

text \<open>
  The solvers and property extractors the stages call are external collaborators: each
  is a function from the inputs the stage passes to the property it gets back.
\<close>

record 'p collaborators =
  numMeshPoints :: "nat list"
  blockDiagonalizerGreensFunction :: "complex list"
  matsubaraSusceptibility :: "complex list \<Rightarrow> 'p"
  rpaCharge :: "'p option \<Rightarrow> real \<Rightarrow> real \<Rightarrow> 'p"
  rpaSpin :: "'p option \<Rightarrow> real \<Rightarrow> real \<Rightarrow> 'p"
  electronFluctuationVertex :: "'p option \<Rightarrow> 'p option \<Rightarrow> real \<Rightarrow> real \<Rightarrow> 'p"
  selfEnergy2 :: "'p option \<Rightarrow> complex list \<Rightarrow> 'p"
  unblock :: "'p \<Rightarrow> 'p"
  interactingGreensFunction :: "complex list \<Rightarrow> 'p option \<Rightarrow> complex list"

definition calculateBareGreensFunction :: "'p collaborators \<Rightarrow> 'p FLEX \<Rightarrow> error + 'p FLEX" where
  "calculateBareGreensFunction ext this =
     (if length (numMeshPoints ext) \<noteq> 2
      then Inl (Exit ''Solver::FLEX::run(): Only two-dimensional block indices supported yet.'')
      else Inr (this\<lparr> greensFunction0 := blockDiagonalizerGreensFunction ext \<rparr>))"

definition calculateBareSusceptibility :: "'p collaborators \<Rightarrow> 'p FLEX \<Rightarrow> 'p FLEX" where
  "calculateBareSusceptibility ext this =
     this\<lparr> bareSusceptibility := Some (matsubaraSusceptibility ext (greensFunction this)) \<rparr>"

definition calculateRPASusceptibilities :: "'p collaborators \<Rightarrow> 'p FLEX \<Rightarrow> 'p FLEX" where
  "calculateRPASusceptibilities ext this =
     this\<lparr> rpaChargeSusceptibility :=
             Some (rpaCharge ext (bareSusceptibility this) (interactionU this) (interactionJ this)),
           rpaSpinSusceptibility :=
             Some (rpaSpin ext (bareSusceptibility this) (interactionU this) (interactionJ this)) \<rparr>"

definition calculateInteractionVertex :: "'p collaborators \<Rightarrow> 'p FLEX \<Rightarrow> 'p FLEX" where
  "calculateInteractionVertex ext this =
     this\<lparr> interactionVertex :=
             Some (electronFluctuationVertex ext (rpaChargeSusceptibility this)
                     (rpaSpinSusceptibility this) (interactionU this) (interactionJ this)) \<rparr>"

definition convertSelfEnergyIndexStructure :: "'p collaborators \<Rightarrow> 'p FLEX \<Rightarrow> error + 'p FLEX" where
  "convertSelfEnergyIndexStructure ext this =
     (if length (numMeshPoints ext) \<noteq> 2
      then Inl (Exit ''Solver::FLEX::convertSelfEnergyBlockStructure(): Only two-dimensional block indices supported yet.'')
      else Inr (this\<lparr> selfEnergy := map_option (unblock ext) (selfEnergy this) \<rparr>))"

definition calculateSelfEnergy :: "'p collaborators \<Rightarrow> 'p FLEX \<Rightarrow> error + 'p FLEX" where
  "calculateSelfEnergy ext this =
     convertSelfEnergyIndexStructure ext
       (this\<lparr> selfEnergy := Some (selfEnergy2 ext (interactionVertex this) (greensFunction this)) \<rparr>)"

definition calculateGreensFunctionFLEX :: "'p collaborators \<Rightarrow> 'p FLEX \<Rightarrow> 'p FLEX" where
  "calculateGreensFunctionFLEX ext this =
     this\<lparr> greensFunction :=
             interactingGreensFunction ext (greensFunction0 this) (selfEnergy this) \<rparr>"

definition divide :: "real \<Rightarrow> real \<Rightarrow> real option" where
  "divide a b = (if b = 0 then None else Some (a / b))"

definition calculateConvergenceParameter :: "'p FLEX \<Rightarrow> error + 'p FLEX" where
  "calculateConvergenceParameter this =
     (let oldData = oldGreensFunction this; newData = greensFunction this
      in if length oldData \<noteq> length newData
         then Inl (Exit ''Solver::FLEX::calculateConvergenceParameter(): Incompatible data sizes.'')
         else
           (case flexNorm this of
              Norm_Max \<Rightarrow>
                (let (oldMax, differenceMax) =
                       fold (\<lambda>n (oldMax, differenceMax).
                               (if cmod (oldData ! n) > oldMax then cmod (oldData ! n) else oldMax,
                                if cmod (oldData ! n - newData ! n) > differenceMax
                                then cmod (oldData ! n - newData ! n) else differenceMax))
                         [0..<length oldData] (0, 0)
                 in Inr (this\<lparr> convergenceParameter := divide differenceMax oldMax \<rparr>))
            | Norm_L2 \<Rightarrow>
                (let (oldL2, differenceL2) =
                       fold (\<lambda>n (oldL2, differenceL2).
                               (oldL2 + (cmod (oldData ! n))\<^sup>2,
                                differenceL2 + (cmod (oldData ! n - newData ! n))\<^sup>2))
                         [0..<length oldData] (0, 0)
                 in Inr (this\<lparr> convergenceParameter := divide differenceL2 oldL2 \<rparr>))))"

text \<open>
  Modelled from the spec: the callback is an observer. It reads the solver after a stage
  change and updates a state \<open>'o\<close> of the caller; \<open>None\<close> is \<^verbatim>\<open>nullptr\<close>.
\<close>

definition notify :: "('p FLEX \<Rightarrow> 'o \<Rightarrow> 'o) option \<Rightarrow> 'p FLEX \<Rightarrow> 'o \<Rightarrow> 'o" where
  "notify callback this obs = (case callback of None \<Rightarrow> obs | Some f \<Rightarrow> f this obs)"

text \<open>One pass through the body of the main loop of \<^verbatim>\<open>run\<close>, up to the test that ends it.\<close>

definition mainLoopBody ::
  "'p collaborators \<Rightarrow> ('p FLEX \<Rightarrow> 'o \<Rightarrow> 'o) option \<Rightarrow> 'p FLEX \<Rightarrow> 'o \<Rightarrow> error + ('p FLEX \<times> 'o)" where
  "mainLoopBody ext callback this obs =
     (let this = (calculateBareSusceptibility ext this)\<lparr> state := BareSusceptibilityCalculated \<rparr>;
          obs = notify callback this obs;
          this = (calculateRPASusceptibilities ext this)\<lparr> state := RPASusceptibilitiesCalculated \<rparr>;
          obs = notify callback this obs;
          this = (calculateInteractionVertex ext this)\<lparr> state := InteractionVertexCalculated \<rparr>;
          obs = notify callback this obs
      in case calculateSelfEnergy ext this of
           Inl e \<Rightarrow> Inl e
         | Inr this \<Rightarrow>
             (let this = this\<lparr> state := SelfEnergyCalculated \<rparr>;
                  obs = notify callback this obs;
                  this = this\<lparr> oldGreensFunction := greensFunction this \<rparr>;
                  this = (calculateGreensFunctionFLEX ext this)\<lparr> state := GreensFunctionCalculated \<rparr>;
                  obs = notify callback this obs
              in Inr (this, obs)))"

lemma mainLoopBody_maxIterations:
  "mainLoopBody ext callback this obs = Inr (this', obs') \<Longrightarrow> maxIterations this' = maxIterations this"
  by (auto simp: mainLoopBody_def Let_def calculateSelfEnergy_def convertSelfEnergyIndexStructure_def
        calculateBareSusceptibility_def calculateRPASusceptibilities_def
        calculateInteractionVertex_def calculateGreensFunctionFLEX_def
      split: sum.splits if_splits)

text \<open>
  The main loop, \<^verbatim>\<open>while(iteration++ < maxIterations)\<close>, ended early by
  \<^verbatim>\<open>if(convergenceParameter < tolerance) break;\<close>.
\<close>

function mainLoop ::
  "'p collaborators \<Rightarrow> ('p FLEX \<Rightarrow> 'o \<Rightarrow> 'o) option \<Rightarrow> nat \<Rightarrow> 'p FLEX \<Rightarrow> 'o \<Rightarrow> error + ('p FLEX \<times> 'o)" where
  "mainLoop ext callback iteration this obs =
     (if iteration < maxIterations this then
        (case mainLoopBody ext callback this obs of
           Inl e \<Rightarrow> Inl e
         | Inr (this', obs') \<Rightarrow>
             if (case convergenceParameter this' of None \<Rightarrow> False | Some c \<Rightarrow> c < tolerance this')
             then Inr (this', obs')
             else mainLoop ext callback (iteration + 1) this' obs')
      else Inr (this, obs))"
  by pat_completeness auto
termination
  by (relation "measure (\<lambda>(ext, callback, iteration, this, obs). maxIterations this - iteration)")
     (auto dest: mainLoopBody_maxIterations)

declare mainLoop.simps [simp del]

definition run ::
  "'p collaborators \<Rightarrow> ('p FLEX \<Rightarrow> 'o \<Rightarrow> 'o) option \<Rightarrow> 'p FLEX \<Rightarrow> 'o \<Rightarrow> error + ('p FLEX \<times> 'o)" where
  "run ext callback this obs =
     (case calculateBareGreensFunction ext this of
        Inl e \<Rightarrow> Inl e
      | Inr this \<Rightarrow>
          (let this = this\<lparr> greensFunction := greensFunction0 this \<rparr>;
               this = this\<lparr> state := GreensFunctionCalculated \<rparr>;
               obs = notify callback this obs
           in mainLoop ext callback 0 this obs))"

section \<open>Predicates used to state the properties\<close>

text \<open>
  What a change of an interaction parameter does to the caches: the three RPA trees are
  empty afterwards, the interaction amplitudes are marked as not generated, and the tree
  of bare susceptibilities is the one before the call.
\<close>

definition invalidatesRPA ::
  "'ia SusceptibilityCalculator \<Rightarrow> 'ia SusceptibilityCalculator \<Rightarrow> bool" where
  "invalidatesRPA before after =
     (rpaSusceptibilityTree after = Map.empty \<and>
      rpaChargeSusceptibilityTree after = Map.empty \<and>
      rpaSpinSusceptibilityTree after = Map.empty \<and>
      \<not> interactionAmplitudesAreGenerated after \<and>
      susceptibilityTree after = susceptibilityTree before)"



text \<open>
  The depths of a tree are in order: no node has a negative \<^verbatim>\<open>maxDepth\<close>, and every child
  has a smaller one than its parent. The trees the constructors build are such trees when
  the depth they are given is not negative, and \<^verbatim>\<open>add\<close> keeps them so.
\<close>

fun depthOK :: "StateTreeNode \<Rightarrow> bool" where
  "depthOK (StateTreeNode children sts c h m nsp) =
     (0 \<le> m \<and> (\<forall>child\<in>set children. maxDepth child < m \<and> depthOK child))"

text \<open>
  The ranges after the first loop of \<^verbatim>\<open>calculateLDOS\<close>: 1 where the pattern is concrete.
\<close>

definition forcedRanges :: "Index \<Rightarrow> Index \<Rightarrow> Index" where
  "forcedRanges pattern ranges =
     map (\<lambda>n. if pattern ! n \<ge> 0 then 1 else ranges ! n) [0..<length ranges]"

text \<open>
  The buffer size in the words of the specification: the product of the ranges over the
  subindices whose pattern entry is not \<^verbatim>\<open>IDX_SUM_ALL\<close>.
\<close>

definition sizeNotSummed :: "int \<Rightarrow> Index \<Rightarrow> Index \<Rightarrow> int" where
  "sizeNotSummed IDX_SUM_ALL pattern ranges =
     prod_list (map (\<lambda>n. ranges ! n) (filter (\<lambda>n. pattern ! n \<noteq> IDX_SUM_ALL) [0..<length ranges]))"

text \<open>
  The dimensions of a tree agree: every center has \<open>d\<close> coordinates and so has every
  state stored in the tree. The constructors from a center build such trees, and
  \<^verbatim>\<open>add\<close> keeps them so.
\<close>

fun dimOK :: "nat \<Rightarrow> StateTreeNode \<Rightarrow> bool" where
  "dimOK d (StateTreeNode children sts c h m nsp) =
     (length c = d \<and> (\<forall>s\<in>set sts. length (coordinates s) = d) \<and>
      (\<forall>child\<in>set children. dimOK d child))"




section \<open>Properties of the Chebyshev property extractor\<close>

subsection \<open>Configuration errors\<close>

text \<open>
  C9. Constructing the extractor with \<^verbatim>\<open>useLookupTable = false\<close> and
  \<^verbatim>\<open>useGPUToGenerateGreensFunctions = true\<close> is a fatal configuration error: whatever the
  numbers of coefficients, the energy resolution and the flag for the coefficients are,
  the constructor writes its error message and exits.
\<close>

theorem C9_gpu_generation_needs_lookup_table:
  "PropertyExtractorChebyshev_ctor nc er gpuCoefficients True False =
     Inl (Exit ''Error in PropertyExtractorChebyshev: useLookupTable cannot be false if useGPUToGenerateGreensFunction is true.'')"
  by (simp add: PropertyExtractorChebyshev_ctor_def)

lemma find_spin_None:
  "spin \<notin> set pattern \<Longrightarrow> find (\<lambda>n. pattern ! n = spin) [0..<length pattern] = None"
  by (auto simp: find_None_iff)

text \<open>
  C4, as the code has it. A pattern with no \<^verbatim>\<open>IDX_SPIN\<close> subindex makes
  \<^verbatim>\<open>calculateSP_LDOS\<close> write its error message and return \<^verbatim>\<open>NULL\<close>: there is no result,
  and the call returns to its caller (the process is not terminated).
\<close>

theorem C4_no_spin_index_returns_null:
  "IDX_SPIN \<notin> set pattern \<Longrightarrow>
     calculateSP_LDOS cSolver IDX_SUM_ALL IDX_SPIN this pattern ranges =
       Inr ([''Error in PropertyExtractorChebyshev::calculateSP_LDOS: No spin index indicated.''],
            None)"
  by (simp add: calculateSP_LDOS_def find_spin_None)

theorem C4_no_spin_index_returns_null_witness:
  "(-6 :: int) \<notin> set [0, -1, 3] \<and>
   calculateSP_LDOS (\<lambda>to from n. 0) (-2) (-6)
       \<lparr> numCoefficients = 10, energyResolution = 2, useGPUToCalculateCoefficients = True,
         useGPUToGenerateGreensFunctions = False, useLookupTable = False \<rparr>
       [0, -1, 3] [1, 4, 1] =
     Inr ([''Error in PropertyExtractorChebyshev::calculateSP_LDOS: No spin index indicated.''],
          None)"
  using C4_no_spin_index_returns_null [of "-6" "[0, -1, 3]" "\<lambda>to from n. 0" "-2"
      "\<lparr> numCoefficients = 10, energyResolution = 2, useGPUToCalculateCoefficients = True,
         useGPUToGenerateGreensFunctions = False, useLookupTable = False \<rparr>" "[1, 4, 1]"]
  by simp

text \<open>
  C4, as stated, fails: for the pattern \<open>[2, 5]\<close>, which has no spin subindex, the call
  does not exit. It returns the null pointer after the message.
\<close>

theorem C4_process_not_terminated_counterexample:
  "calculateSP_LDOS (\<lambda>to from n. 0) (-2) (-6)
       \<lparr> numCoefficients = 10, energyResolution = 2, useGPUToCalculateCoefficients = True,
         useGPUToGenerateGreensFunctions = False, useLookupTable = False \<rparr>
       [2, 5] [1, 1] =
     Inr ([''Error in PropertyExtractorChebyshev::calculateSP_LDOS: No spin index indicated.''],
          None)"
  by (simp add: calculateSP_LDOS_def)

subsection \<open>The output buffer of \<^verbatim>\<open>calculateLDOS\<close>\<close>

lemma int32_small: "- 2147483648 \<le> x \<Longrightarrow> x < 2147483648 \<Longrightarrow> int32 x = x"
  by (simp add: int32_def)

lemma forEach_append:
  "forEach (xs @ ys) body s =
     (case forEach xs body s of Inl e \<Rightarrow> Inl e | Inr s' \<Rightarrow> forEach ys body s')"
  by (induction xs arbitrary: s) (auto split: sum.splits)

lemma forceRanges_prefix:
  "k \<le> length pattern \<Longrightarrow> k \<le> length ranges \<Longrightarrow>
     forEach [0..<k]
       (\<lambda>n ranges.
          if pattern ! n \<ge> 0 then
            (if n < length ranges then Inr (ranges[n := 1]) else Inl OutOfRange)
          else Inr ranges)
       ranges
     = Inr (map (\<lambda>n. if n < k \<and> pattern ! n \<ge> 0 then 1 else ranges ! n) [0..<length ranges])"
proof (induction k)
  case 0
  then show ?case by (simp add: map_nth)
next
  case (Suc k)
  then show ?case
    by (auto simp: forEach_append less_Suc_eq nth_list_update intro!: nth_equalityI)
qed

lemma forceRanges_eq:
  "length pattern = length ranges \<Longrightarrow> forceRanges pattern ranges = Inr (forcedRanges pattern ranges)"
  using forceRanges_prefix [of "length pattern" pattern ranges]
  by (simp add: forceRanges_def forcedRanges_def cong: map_cong)

text \<open>
  For a pattern and ranges of the same length the two loops of \<^verbatim>\<open>calculateLDOS\<close> do
  not throw: every range of a concrete coordinate is forced to 1, a size is computed, and
  the engine is started on a buffer of that size with every element zero.
\<close>

lemma arraySize_returns:
  "k \<le> length ranges \<Longrightarrow> length ranges \<le> length pattern \<Longrightarrow>
     \<exists>size'. forEach [0..<k]
       (\<lambda>n ldosArraySize.
          if n < length pattern then
            (if pattern ! n < S then Inr (int32 (ldosArraySize * ranges ! n))
             else Inr ldosArraySize)
          else Inl OutOfRange)
       a = Inr size'"
proof (induction k arbitrary: a)
  case 0
  show ?case by simp
next
  case (Suc k)
  from Suc.prems have "k \<le> length ranges" by simp
  from Suc.IH [OF this Suc.prems(2), of a] obtain s' where
    "forEach [0..<k]
       (\<lambda>n ldosArraySize.
          if n < length pattern then
            (if pattern ! n < S then Inr (int32 (ldosArraySize * ranges ! n))
             else Inr ldosArraySize)
          else Inl OutOfRange)
       a = Inr s'" by blast
  with Suc.prems show ?case by (simp add: forEach_append)
qed

lemma length_forcedRanges [simp]: "length (forcedRanges pattern ranges) = length ranges"
  by (simp add: forcedRanges_def)

lemma calculateLDOS_zero_buffer:
  assumes "length pattern = length ranges"
  shows "\<exists>size'. arraySize S pattern (forcedRanges pattern ranges) = Inr size' \<and>
           calculateLDOS cSolver S this pattern ranges =
             (if size' < 0 then Inl BadArrayNewLength
              else calculate (calculateLDOSCallback cSolver this) S
                     (replicate (nat size') 0) pattern (forcedRanges pattern ranges) 0 1)"
proof -
  from arraySize_returns [of "length ranges" "forcedRanges pattern ranges" pattern S 1] assms
  obtain size' where "arraySize S pattern (forcedRanges pattern ranges) = Inr size'"
    by (auto simp: arraySize_def)
  with assms show ?thesis
    by (simp add: calculateLDOS_def forceRanges_eq)
qed

lemma scanSubindex_none:
  "\<forall>n. n \<le> c \<longrightarrow> p ! n \<ge> 0 \<Longrightarrow> scanSubindex p (int c) = -1"
proof (induction c)
  case 0
  then show ?case by (simp add: scanSubindex.simps)
next
  case (Suc c)
  then have "scanSubindex p (int c) = -1" by simp
  moreover from Suc.prems have "\<not> p ! Suc c < 0" by (simp add: not_less)
  ultimately show ?case
    by (subst scanSubindex.simps) (simp add: nat_add_distrib)
qed

lemma scanSubindex_all_concrete:
  "\<forall>n<length p. p ! n \<ge> 0 \<Longrightarrow> scanSubindex p (int (length p) - 1) = -1"
proof (cases p)
  case Nil
  then show ?thesis by (simp add: scanSubindex.simps)
next
  case (Cons a q)
  assume "\<forall>n<length p. p ! n \<ge> 0"
  with Cons have "\<forall>n. n \<le> length q \<longrightarrow> p ! n \<ge> 0" by (simp add: less_Suc_eq_le)
  from scanSubindex_none [OF this] Cons show ?thesis by simp
qed

lemma scanSubindex_last:
  "k \<le> c \<Longrightarrow> p ! k < 0 \<Longrightarrow> \<forall>n. k < n \<and> n \<le> c \<longrightarrow> p ! n \<ge> 0 \<Longrightarrow>
     scanSubindex p (int c) = int k"
proof (induction c)
  case 0
  then show ?case by (simp add: scanSubindex.simps)
next
  case (Suc c)
  show ?case
  proof (cases "k = Suc c")
    case True
    with Suc.prems show ?thesis by (subst scanSubindex.simps) (simp add: nat_add_distrib)
  next
    case False
    with Suc.prems have "scanSubindex p (int c) = int k" by (intro Suc.IH) auto
    moreover from Suc.prems False have "\<not> p ! Suc c < 0" by (simp add: not_less)
    ultimately show ?thesis
      by (subst scanSubindex.simps) (simp add: nat_add_distrib)
  qed
qed

lemma calculate_concrete:
  "\<forall>n<length pattern. pattern ! n \<ge> 0 \<Longrightarrow>
     calculate callback S memory pattern ranges offset multiplier = callback memory pattern offset"
  by (subst calculate.simps) (simp add: scanSubindex_all_concrete)

lemma forEach_keep_offset:
  "forEach xs (\<lambda>n (m, o'). case g n m o' of Inl e \<Rightarrow> Inl e | Inr m' \<Rightarrow> Inr (m', o')) (m, off)
     = map_sum id (\<lambda>m. (m, off)) (forEach xs (\<lambda>n m. g n m off) m)"
  by (induction xs arbitrary: m) (auto split: sum.splits)

text \<open>
  The engine on a pattern with one wildcard, at subindex \<open>k\<close>: the callback is invoked
  once for each coordinate below the range, in order; the offset stays what it is when
  the wildcard is \<^verbatim>\<open>IDX_SUM_ALL\<close> and advances by the multiplier after each invocation
  when it is any other wildcard.
\<close>

lemma calculate_single_wildcard:
  assumes k: "k < length pattern" "k < length ranges"
    and wild: "pattern ! k < 0"
    and others: "\<forall>n<length pattern. n \<noteq> k \<longrightarrow> pattern ! n \<ge> 0"
  shows "calculate callback S memory pattern ranges offset multiplier =
           map_sum id fst
             (forEach [0..<nat (ranges ! k)]
                (\<lambda>n (m, o'). case callback m (pattern[k := int n]) o' of
                                 Inl e \<Rightarrow> Inl e
                               | Inr m' \<Rightarrow>
                                   Inr (m', if pattern ! k = S then o'
                                            else int32 (o' + multiplier)))
                (memory, offset))"
proof -
  have "scanSubindex pattern (int (length pattern - 1)) = int k"
    using k wild others by (intro scanSubindex_last) auto
  with k have scan: "scanSubindex pattern (int (length pattern) - 1) = int k"
    by (simp add: of_nat_diff)
  have inner: "calculate callback S m (pattern[k := int n]) ranges o' mult'
      = callback m (pattern[k := int n]) o'" for m n o' mult'
    using others k by (intro calculate_concrete) (auto simp: nth_list_update)
  show ?thesis
    by (subst calculate.simps) (simp add: scan k inner Let_def cong: sum.case_cong)
qed

text \<open>
  C5 (the code departs from it). With \<^verbatim>\<open>IDX_SUM_ALL = -2\<close>, the pattern \<open>[-1]\<close> and the
  range 3: the wildcard is not \<^verbatim>\<open>IDX_SUM_ALL\<close>, so the product over the subindices that
  are not summed is 3, but the size loop tests \<^verbatim>\<open>pattern < IDX_SUM_ALL\<close> and allocates 1
  element. The engine advances the offset over this wildcard (it holds it back for
  \<^verbatim>\<open>IDX_SUM_ALL\<close> only), so with energy resolution 1 the second invocation of the
  callback writes outside the buffer. For the pattern \<open>[-3, -3]\<close> with ranges 65536 and
  65536 the product is \<open>2\<^sup>3\<^sup>2\<close>, and the \<^verbatim>\<open>int\<close> that holds the size wraps around to 0.
\<close>

theorem C5_buffer_smaller_than_product:
  "forceRanges [-1] [3] = Inr [3] \<and>
   arraySize (-2) [-1] [3] = Inr 1 \<and>
   sizeNotSummed (-2) [-1] [3] = 3 \<and>
   calculateLDOS (\<lambda>to from n. 0) (-2)
       \<lparr> numCoefficients = 10, energyResolution = 1, useGPUToCalculateCoefficients = True,
         useGPUToGenerateGreensFunctions = False, useLookupTable = False \<rparr>
       [-1] [3] = Inl OutOfBounds \<and>
   forceRanges [-3, -3] [65536, 65536] = Inr [65536, 65536] \<and>
   arraySize (-2) [-3, -3] [65536, 65536] = Inr 0 \<and>
   sizeNotSummed (-2) [-3, -3] [65536, 65536] = 4294967296"
proof -
  have f: "forceRanges [-1] [3] = Inr [3]"
    by (simp add: forceRanges_def)
  have a: "arraySize (-2) [-1] [3] = Inr 1"
    by (simp add: arraySize_def)
  have c: "calculate cb (-2) m [-1] [3] 0 1
      = map_sum id fst
          (forEach [0..<3]
             (\<lambda>n (m, o'). case cb m ([-1][0 := int n]) o' of
                              Inl e \<Rightarrow> Inl e
                            | Inr m' \<Rightarrow> Inr (m', if [-1 :: int] ! 0 = -2 then o' else int32 (o' + 1)))
             (m, 0))"
    for cb :: "real list \<Rightarrow> Index \<Rightarrow> int \<Rightarrow> error + real list" and m
    using calculate_single_wildcard [of 0 "[-1]" "[3]" cb "-2" m 0 1] by simp
  have l: "calculateLDOS (\<lambda>to from n. 0) (-2)
       \<lparr> numCoefficients = 10, energyResolution = 1, useGPUToCalculateCoefficients = True,
         useGPUToGenerateGreensFunctions = False, useLookupTable = False \<rparr>
       [-1] [3] = Inl OutOfBounds"
    by (simp add: calculateLDOS_def f a c calculateLDOSCallback_def calculateGreensFunction_def
          calculateGreensFunctions_def Let_def upt_rec int32_def)
  have f2: "forceRanges [-3, -3] [65536, 65536] = Inr [65536, 65536]"
    by (simp add: forceRanges_def)
  have a2: "arraySize (-2) [-3, -3] [65536, 65536] = Inr 0"
    by (simp add: arraySize_def int32_def)
  have s1: "sizeNotSummed (-2) [-1] [3] = 3"
    by (simp add: sizeNotSummed_def)
  have s2: "sizeNotSummed (-2) [-3, -3] [65536, 65536] = 4294967296"
    by (simp add: sizeNotSummed_def)
  from f a s1 l f2 a2 s2 show ?thesis by (intro conjI)
qed

subsection \<open>Summed subindices\<close>

text \<open>
  The engine on a pattern whose only wildcard is \<^verbatim>\<open>IDX_SUM_ALL\<close>, at subindex \<open>k\<close>: the
  callback is invoked once for each coordinate below the range, in order, every time with
  the offset the engine was started with.
\<close>

lemma calculate_single_sum:
  assumes k: "k < length pattern" "k < length ranges"
    and sum: "pattern ! k = S" "S < 0"
    and others: "\<forall>n<length pattern. n \<noteq> k \<longrightarrow> pattern ! n \<ge> 0"
  shows "calculate callback S memory pattern ranges offset multiplier =
           forEach [0..<nat (ranges ! k)] (\<lambda>n memory. callback memory (pattern[k := int n]) offset)
             memory"
proof -
  from sum have wild: "pattern ! k < 0" by simp
  have "calculate callback S memory pattern ranges offset multiplier =
      map_sum id fst
        (forEach [0..<nat (ranges ! k)]
           (\<lambda>n (m, o'). case callback m (pattern[k := int n]) o' of
                            Inl e \<Rightarrow> Inl e | Inr m' \<Rightarrow> Inr (m', o'))
           (memory, offset))"
    unfolding calculate_single_wildcard [OF k wild others] by (simp add: sum cong: sum.case_cong)
  also have "\<dots> = map_sum id fst (map_sum id (\<lambda>m. (m, offset))
        (forEach [0..<nat (ranges ! k)] (\<lambda>n m. callback m (pattern[k := int n]) offset) memory))"
    by (simp only: forEach_keep_offset [where g = "\<lambda>n m o'. callback m (pattern[k := int n]) o'"])
  also have "\<dots> = forEach [0..<nat (ranges ! k)]
        (\<lambda>n memory. callback memory (pattern[k := int n]) offset) memory"
    by (cases "forEach [0..<nat (ranges ! k)]
        (\<lambda>n memory. callback memory (pattern[k := int n]) offset) memory") simp_all
  finally show ?thesis .
qed

lemma ldos_inner_loop:
  assumes "e * o' + e \<le> length ldos" "j \<le> e" "e * o' + e < 2147483648"
  shows "forEach [0..<j]
           (\<lambda>n ldos.
              let i = int32 (int32 (int e * int o') + int n)
              in if 0 \<le> i \<and> i < int (length ldos)
                 then Inr (ldos[nat i := ldos ! nat i - Im (gf ! n) / pi])
                 else Inl OutOfBounds)
           ldos
         = Inr (map (\<lambda>i. if e * o' \<le> i \<and> i < e * o' + j
                          then ldos ! i - Im (gf ! (i - e * o')) / pi else ldos ! i)
                  [0..<length ldos])"
  using assms(2)
proof (induction j)
  case 0
  then show ?case by (auto intro!: nth_equalityI)
next
  case (Suc j)
  from assms(3) have b1: "int (e * o') < 2147483648" by linarith
  from assms(3) Suc.prems have b2: "int (e * o' + j) < 2147483648" by linarith
  have m: "int e * int o' = int (e * o')" by simp
  have s: "int (e * o') + int j = int (e * o' + j)" by simp
  have "int32 (int (e * o')) = int (e * o')"
    by (rule int32_small) (use b1 in linarith)+
  moreover have "int32 (int (e * o' + j)) = int (e * o' + j)"
    by (rule int32_small) (use b2 in linarith)+
  ultimately have i: "int32 (int32 (int e * int o') + int j) = int (e * o' + j)"
    by (simp only: m s)
  from Suc.prems assms(1) have lt: "e * o' + j < length ldos" by simp
  from Suc show ?case
    apply (simp add: forEach_append Let_def i lt del: of_nat_add of_nat_mult)
    apply (rule nth_equalityI)
     apply (auto simp: nth_list_update lt)
    done
qed

lemma calculateLDOSCallback_accumulates:
  assumes "useGPUToCalculateCoefficients this" "energyResolution this = int e"
    and "e * o' + e \<le> length ldos" "e * o' + e < 2147483648"
  shows "calculateLDOSCallback cSolver this ldos index (int o')
         = Inr (map (\<lambda>i. if e * o' \<le> i \<and> i < e * o' + e
                          then ldos ! i - Im (cSolver [index] index (i - e * o')) / pi
                          else ldos ! i)
                  [0..<length ldos])"
proof -
  have gf: "calculateGreensFunction cSolver this index index = Inr (map (cSolver [index] index) [0..<e])"
    using assms(1,2) by (simp add: calculateGreensFunction_def calculateGreensFunctions_def)
  show ?thesis
    unfolding calculateLDOSCallback_def gf
    using ldos_inner_loop [OF assms(3) le_refl assms(4), of "map (cSolver [index] index) [0..<e]"]
      assms(2)
    by (auto intro!: nth_equalityI)
qed

text \<open>
  Additivity, for a buffer that holds the slot: on a pattern whose only wildcard is
  \<^verbatim>\<open>IDX_SUM_ALL\<close> with range \<open>R\<close>, the engine with the LDOS callback subtracts from each
  element of the slot at the given offset the sum over the \<open>R\<close> slices of \<open>Im G / \<pi>\<close>,
  and leaves the rest of the buffer as it was.
\<close>

lemma calculate_sum_all_additive:
  assumes k: "k < length pattern" "k < length ranges"
    and sum: "pattern ! k = S" "S < 0"
    and others: "\<forall>n<length pattern. n \<noteq> k \<longrightarrow> pattern ! n \<ge> 0"
    and gpu: "useGPUToCalculateCoefficients this" and e: "energyResolution this = int e"
    and fits: "e * o' + e \<le> length ldos" and small: "e * o' + e < 2147483648"
  shows "calculate (calculateLDOSCallback cSolver this) S ldos pattern ranges (int o') multiplier
         = Inr (map (\<lambda>i. if e * o' \<le> i \<and> i < e * o' + e
                          then ldos ! i
                               - (\<Sum>n<nat (ranges ! k).
                                    Im (cSolver [pattern[k := int n]] (pattern[k := int n]) (i - e * o')) / pi)
                          else ldos ! i)
                  [0..<length ldos])"
proof -
  have loop: "forEach [0..<r]
        (\<lambda>n memory. calculateLDOSCallback cSolver this memory (pattern[k := int n]) (int o')) ldos
      = Inr (map (\<lambda>i. if e * o' \<le> i \<and> i < e * o' + e
                          then ldos ! i
                               - (\<Sum>n<r. Im (cSolver [pattern[k := int n]] (pattern[k := int n]) (i - e * o')) / pi)
                          else ldos ! i)
                  [0..<length ldos])" for r
  proof (induction r)
    case 0
    show ?case by (auto intro!: nth_equalityI)
  next
    case (Suc r)
    let ?l = "map (\<lambda>i. if e * o' \<le> i \<and> i < e * o' + e
                          then ldos ! i
                               - (\<Sum>n<r. Im (cSolver [pattern[k := int n]] (pattern[k := int n]) (i - e * o')) / pi)
                          else ldos ! i)
                  [0..<length ldos]"
    have len: "e * o' + e \<le> length ?l" using fits by simp
    show ?case
      by (simp add: forEach_append Suc calculateLDOSCallback_accumulates [OF gpu e len small]
            del: of_nat_add of_nat_mult)
  qed
  show ?thesis
    unfolding calculate_single_sum [OF k sum others] by (rule loop)
qed

text \<open>
  C6 (the code departs from it). The pattern \<open>[4, -2]\<close> with \<^verbatim>\<open>IDX_SUM_ALL = -2\<close> and
  ranges \<open>[1, 3]\<close> has one summed subindex of range 3, and every Green's function is
  the constant \<open>\<i>\<close>, so each slice contributes \<open>- 1 / \<pi>\<close>. With energy resolution 2
  \<^verbatim>\<open>calculateLDOS\<close> allocates one element and the callback writes a second one: the
  access is outside the buffer. With energy resolution 1 the one element is the sum of
  the three contributions.
\<close>

theorem C6_ldos_buffer_too_small:
  "calculateLDOS (\<lambda>to from n. \<i>) (-2)
       \<lparr> numCoefficients = 10, energyResolution = 2, useGPUToCalculateCoefficients = True,
         useGPUToGenerateGreensFunctions = False, useLookupTable = False \<rparr>
       [4, -2] [1, 3] = Inl OutOfBounds \<and>
   calculateLDOS (\<lambda>to from n. \<i>) (-2)
       \<lparr> numCoefficients = 10, energyResolution = 1, useGPUToCalculateCoefficients = True,
         useGPUToGenerateGreensFunctions = False, useLookupTable = False \<rparr>
       [4, -2] [1, 3] = Inr [- (1 / pi + 1 / pi + 1 / pi)]"
proof -
  have f: "forceRanges [4, -2] [1, 3] = Inr [1, 3]"
    by (simp add: forceRanges_def)
  have a: "arraySize (-2) [4, -2] [1, 3] = Inr 1"
    by (simp add: arraySize_def)
  have c: "calculate cb (-2) m [4, -2] [1, 3] 0 1
      = forEach [0..<3] (\<lambda>n memory. cb memory ([4, -2][1 := int n]) 0) m" for cb :: "real list \<Rightarrow> Index \<Rightarrow> int \<Rightarrow> error + real list" and m
    using calculate_single_sum [of 1 "[4, -2]" "[1, 3]" "-2" cb m 0 1]
    by (simp add: less_Suc_eq)
  have u: "[0..<3] = [0, 1, 2]" by (simp add: upt_rec)
  show ?thesis
    by (simp add: calculateLDOS_def f a c u calculateLDOSCallback_def calculateGreensFunction_def
          calculateGreensFunctions_def Let_def upt_rec int32_def)
qed

section \<open>Properties of the susceptibility calculator\<close>

text \<open>
  C7. \<^verbatim>\<open>setU\<close>, \<^verbatim>\<open>setUp\<close>, \<^verbatim>\<open>setJ\<close> and \<^verbatim>\<open>setJp\<close> clear the RPA, RPA-charge and
  RPA-spin trees and mark the interaction amplitudes for regeneration, leaving the bare
  susceptibility tree unchanged; \<^verbatim>\<open>setSusceptibilityEnergies\<close> clears the bare tree and
  the three RPA trees.
\<close>

theorem C7_cache_invalidation:
  "invalidatesRPA this (setU u this) \<and>
   invalidatesRPA this (setUp u this) \<and>
   invalidatesRPA this (setJ u this) \<and>
   invalidatesRPA this (setJp u this) \<and>
   susceptibilityTree (setSusceptibilityEnergies energies this) = Map.empty \<and>
   rpaSusceptibilityTree (setSusceptibilityEnergies energies this) = Map.empty \<and>
   rpaChargeSusceptibilityTree (setSusceptibilityEnergies energies this) = Map.empty \<and>
   rpaSpinSusceptibilityTree (setSusceptibilityEnergies energies this) = Map.empty"
  by (simp add: invalidatesRPA_def setU_def setUp_def setJ_def setJp_def
        setSusceptibilityEnergies_def)

section \<open>Properties of the FLEX solver\<close>

lemma mainLoopBody_convergenceParameter:
  "mainLoopBody ext callback this obs = Inr (this', obs') \<Longrightarrow>
     convergenceParameter this' = convergenceParameter this \<and> tolerance this' = tolerance this"
  by (auto simp: mainLoopBody_def Let_def calculateSelfEnergy_def convertSelfEnergyIndexStructure_def
        calculateBareSusceptibility_def calculateRPASusceptibilities_def
        calculateInteractionVertex_def calculateGreensFunctionFLEX_def
      split: sum.splits if_splits)

lemma mainLoop_convergenceParameter:
  "mainLoop ext callback iteration this obs = Inr (this', obs') \<Longrightarrow>
     convergenceParameter this' = convergenceParameter this"
proof (induction ext callback iteration this obs rule: mainLoop.induct)
  case (1 ext callback iteration this obs)
  show ?case
  proof (cases "iteration < maxIterations this")
    case False
    with "1.prems" show ?thesis by (simp add: mainLoop.simps)
  next
    case True
    with "1.prems" obtain this1 obs1 where
      body: "mainLoopBody ext callback this obs = Inr (this1, obs1)"
      by (subst (asm) mainLoop.simps) (auto split: sum.splits)
    note keep = mainLoopBody_convergenceParameter [OF body]
    show ?thesis
    proof (cases "case convergenceParameter this1 of None \<Rightarrow> False | Some c \<Rightarrow> c < tolerance this1")
      case stop: True
      with True body "1.prems" have "this' = this1"
        by (subst (asm) mainLoop.simps) simp
      with keep show ?thesis by simp
    next
      case go: False
      with True body "1.prems"
      have "mainLoop ext callback (iteration + 1) this1 obs1 = Inr (this', obs')"
        by (subst (asm) mainLoop.simps) simp
      with "1.IH" [OF True body refl go] keep show ?thesis by simp
    qed
  qed
qed

text \<open>
  \<^verbatim>\<open>run\<close> never calls \<^verbatim>\<open>calculateConvergenceParameter\<close>: whatever the Green's functions
  are, the convergence parameter after a run is the one before it.
\<close>

lemma run_convergenceParameter:
  "run ext callback this obs = Inr (this', obs') \<Longrightarrow>
     convergenceParameter this' = convergenceParameter this"
  by (auto simp: run_def Let_def calculateBareGreensFunction_def
      split: sum.splits if_splits dest!: mainLoop_convergenceParameter)

text \<open>
  C1 (the code departs from it). A run with \<^verbatim>\<open>maxIterations = 3\<close>, tolerance \<open>1/2\<close>
  and the maximum norm, on collaborators for which the bare Green's function is \<open>[1]\<close>
  and the recomputed one is \<open>[2]\<close>. The callback counts the stage changes. After the
  first pass the old and the new Green's function are \<open>[1]\<close> and \<open>[2]\<close>, for which
  \<^verbatim>\<open>calculateConvergenceParameter\<close> gives 1, not below the tolerance. The loop still ends
  after that first pass (6 stage changes: the bootstrap and one pass of five), and the
  convergence parameter is the 0 the constructor set. Without a callback the run ends in
  the same state of the solver.
\<close>

theorem C1_run_skips_convergence_parameter:
  "map_sum id (\<lambda>(this, obs). (convergenceParameter this, oldGreensFunction this,
                                 greensFunction this, obs))
     (run \<lparr> numMeshPoints = [1, 1], blockDiagonalizerGreensFunction = [1],
            matsubaraSusceptibility = (\<lambda>g. ()), rpaCharge = (\<lambda>b u j. ()),
            rpaSpin = (\<lambda>b u j. ()), electronFluctuationVertex = (\<lambda>c s u j. ()),
            selfEnergy2 = (\<lambda>v g. ()), unblock = (\<lambda>p. p),
            interactingGreensFunction = (\<lambda>g0 se. [2]) \<rparr>
          (Some (\<lambda>this (n :: nat). n + 1))
          ((FLEX_ctor (1 / 2))\<lparr> maxIterations := 3 \<rparr>) 0)
     = Inr (Some 0, [1], [2], 6) \<and>
   map_sum id (\<lambda>(this, obs). (convergenceParameter this, oldGreensFunction this,
                                 greensFunction this))
     (run \<lparr> numMeshPoints = [1, 1], blockDiagonalizerGreensFunction = [1],
            matsubaraSusceptibility = (\<lambda>g. ()), rpaCharge = (\<lambda>b u j. ()),
            rpaSpin = (\<lambda>b u j. ()), electronFluctuationVertex = (\<lambda>c s u j. ()),
            selfEnergy2 = (\<lambda>v g. ()), unblock = (\<lambda>p. p),
            interactingGreensFunction = (\<lambda>g0 se. [2]) \<rparr>
          None ((FLEX_ctor (1 / 2))\<lparr> maxIterations := 3 \<rparr>) ())
     = Inr (Some 0, [1], [2]) \<and>
   map_sum id convergenceParameter
     (calculateConvergenceParameter
        ((FLEX_ctor (1 / 2) :: unit FLEX)\<lparr> oldGreensFunction := [1], greensFunction := [2] \<rparr>))
     = Inr (Some 1)"
  by (simp add: run_def mainLoop.simps mainLoopBody_def FLEX_ctor_def notify_def
        calculateBareGreensFunction_def calculateSelfEnergy_def convertSelfEnergyIndexStructure_def
        calculateBareSusceptibility_def calculateRPASusceptibilities_def
        calculateInteractionVertex_def calculateGreensFunctionFLEX_def Let_def
        calculateConvergenceParameter_def divide_def)

section \<open>Properties of the state tree\<close>

subsection \<open>Child nodes\<close>

text \<open>A node made by the constructors from a center creates \<open>2^D\<close> children.\<close>

lemma createChildren_ctor:
  "length (createChildren fp (StateTreeNode_ctor c h m)) = 2 ^ length c"
  by (simp add: createChildren_def StateTreeNode_ctor_def)

lemma numSpacePartitions_pushState [simp]:
  "numSpacePartitions (pushState s node) = numSpacePartitions node"
  by (simp add: pushState_def)

lemma numSpacePartitions_setChildren [simp]:
  "numSpacePartitions (setChildren cs node) = numSpacePartitions node"
  by (simp add: setChildren_def)

lemma addRecursive_numSpacePartitions:
  "addRecursive fp fuel node s = Some (Inr (b, node')) \<Longrightarrow>
     numSpacePartitions node' = numSpacePartitions node"
  by (cases fuel)
     (auto simp: Let_def split: extent_value.splits if_splits option.splits sum.splits prod.splits)

lemma addAll_numSpacePartitions:
  "addAll fp fuel node sts = Some (Inr node') \<Longrightarrow> numSpacePartitions node' = numSpacePartitions node"
proof (induction sts arbitrary: node)
  case Nil
  then show ?case by simp
next
  case (Cons s sts)
  then show ?case
    by (auto simp: add_def split: option.splits sum.splits if_splits prod.splits
        dest!: addRecursive_numSpacePartitions)
qed

text \<open>Every root built from a state set has one space partition, whatever its dimension.\<close>

lemma fromStateSet_numSpacePartitions:
  assumes "StateTreeNode_fromStateSet fp fuel sts md = Some (Inr tree)"
  shows "numSpacePartitions tree = 1"
proof -
  from assms obtain c h where "addAll fp fuel (StateTreeNode [] [] c h md 1) sts = Some (Inr tree)"
    by (auto simp: StateTreeNode_fromStateSet_def simp del: addAll.simps
        split: list.splits sum.splits prod.splits if_splits)
  from addAll_numSpacePartitions [OF this] show ?thesis by simp
qed

text \<open>The arithmetic that does not round.\<close>

lemma exact_simps [simp]:
  "fadd exact = (+)" "fsub exact = (-)" "fmul exact = (*)" "fdiv exact = (/)"
  "fpow2 exact = (\<lambda>x. x\<^sup>2)" "fsqrt exact = sqrt"
  by (simp_all add: exact_def)

text \<open>
  C2 (the code departs from it). The root built from the state set holding one state at
  \<open>(0, 0)\<close> with extent 1, with \<^verbatim>\<open>maxDepth = 1\<close>, has coordinate dimension 2 and
  creates its children when that state is added: it creates 1 child, not \<open>2\<^sup>2\<close>. A root
  with the same center, half size and depth built by the constructor from a center
  creates 4. Every number of these two runs is a multiple of \<open>1/4\<close> of absolute value at
  most 2, so no operation on doubles rounds and \<open>exact\<close> is the arithmetic of the machine.
\<close>

theorem C2_state_set_root_has_one_child:
  "map_option (map_sum id (\<lambda>tree. (length (center tree), length (stateTreeNodes tree))))
     (StateTreeNode_fromStateSet exact 2
        [\<lparr> stateID = 0, coordinates = [0, 0], extent = Finite 1 \<rparr>] 1)
     = Some (Inr (2, 1)) \<and>
   map_option (map_sum id (\<lambda>tree. (length (center tree), length (stateTreeNodes tree))))
     (add exact 2 (StateTreeNode_ctor [0, 0] 1 1)
        \<lparr> stateID = 0, coordinates = [0, 0], extent = Finite 1 \<rparr>)
     = Some (Inr (2, 4))"
  by (simp add: StateTreeNode_fromStateSet_def assertDimensions_def stateBounds_def widen_def
        add_def createChildren_def StateTreeNode_ctor_def largestRelativeCoordinate_def
        setChildren_def pushState_def Let_def upt_rec numeral_2_eq_2)

subsection \<open>Errors of \<^verbatim>\<open>add\<close>\<close>




lemma tryChildren_error:
  "(\<And>c e. c \<in> set cs \<Longrightarrow> f c = Some (Inl e) \<Longrightarrow> e = OutOfRange)
     \<Longrightarrow> tryChildren f cs = Some (Inl e) \<Longrightarrow> e = OutOfRange"
  by (induction cs) (auto split: option.splits sum.splits if_splits prod.splits)

lemma addRecursive_error:
  "addRecursive fp fuel node s = Some (Inl e) \<Longrightarrow> e = OutOfRange"
proof (induction fuel arbitrary: node e)
  case 0
  then show ?case by simp
next
  case (Suc fuel)
  from Suc.prems show ?case
    by (auto simp: Let_def split: extent_value.splits if_splits option.splits sum.splits prod.splits
        dest!: tryChildren_error [rotated] intro: Suc.IH)
qed





subsection \<open>State sets of mixed dimensions\<close>

lemma assertDimensions_nonempty:
  "\<forall>s\<in>set rest. coordinates s \<noteq> [] \<Longrightarrow>
     assertDimensions rest n0 = Inr (if rest = [] then n0 else length (coordinates (last rest)))"
  unfolding assertDimensions_def
  by (induction rest arbitrary: n0) (auto simp: Let_def)

lemma center_pushState [simp]: "center (pushState s node) = center node"
  by (simp add: pushState_def)

lemma center_setChildren [simp]: "center (setChildren cs node) = center node"
  by (simp add: setChildren_def)

lemma addRecursive_center:
  "addRecursive fp fuel node s = Some (Inr (b, node')) \<Longrightarrow> center node' = center node"
  by (cases fuel)
     (auto simp: Let_def split: extent_value.splits if_splits option.splits sum.splits prod.splits)

lemma add_center:
  "add fp fuel node s = Some (Inr node') \<Longrightarrow>
     center node' = center node \<and> length (coordinates s) = length (center node)"
  by (auto simp: add_def split: if_splits option.splits sum.splits prod.splits
      dest: addRecursive_center)

lemma addAll_center:
  "addAll fp fuel node sts = Some (Inr t) \<Longrightarrow>
     center t = center node \<and> (\<forall>s\<in>set sts. length (coordinates s) = length (center node))"
proof (induction sts arbitrary: node)
  case Nil
  then show ?case by simp
next
  case (Cons s sts)
  then show ?case
    by (auto split: option.splits sum.splits dest!: add_center)
qed

lemma fromStateSet_dimensions:
  assumes "StateTreeNode_fromStateSet fp fuel sts md = Some (Inr t)"
  shows "\<forall>s\<in>set sts. length (coordinates s) = length (center t)"
proof -
  from assms obtain root where "addAll fp fuel root sts = Some (Inr t)"
    by (auto simp: StateTreeNode_fromStateSet_def simp del: addAll.simps
        split: list.splits sum.splits prod.splits if_splits)
  then show ?thesis by (auto dest!: addAll_center)
qed


lemma depthOK_iff:
  "depthOK node \<longleftrightarrow>
     0 \<le> maxDepth node \<and> (\<forall>child\<in>set (stateTreeNodes node). maxDepth child < maxDepth node \<and> depthOK child)"
  by (cases node) simp

lemma tryChildren_total:
  "\<forall>c\<in>set cs. f c \<noteq> None \<Longrightarrow> tryChildren f cs \<noteq> None"
  by (induction cs) (auto split: option.splits sum.splits prod.splits)

lemma createChildren_depthOK:
  "0 < maxDepth node \<Longrightarrow> c \<in> set (createChildren fp node) \<Longrightarrow>
     depthOK c \<and> maxDepth c = maxDepth node - 1"
  by (auto simp: createChildren_def StateTreeNode_ctor_def)

lemma maxDepth_pushState [simp]: "maxDepth (pushState s node) = maxDepth node"
  by (simp add: pushState_def)

lemma maxDepth_setChildren [simp]: "maxDepth (setChildren cs node) = maxDepth node"
  by (simp add: setChildren_def)

lemma children_pushState [simp]: "stateTreeNodes (pushState s node) = stateTreeNodes node"
  by (simp add: pushState_def)

lemma children_setChildren [simp]: "stateTreeNodes (setChildren cs node) = cs"
  by (simp add: setChildren_def)

text \<open>
  With depths in order, more fuel than the depth of the root is enough for
  \<^verbatim>\<open>addRecursive\<close> to return.
\<close>

lemma addRecursive_total:
  "depthOK node \<Longrightarrow> nat (maxDepth node) < fuel \<Longrightarrow> addRecursive fp fuel node s \<noteq> None"
proof (induction fuel arbitrary: node)
  case 0
  then show ?case by simp
next
  case (Suc fuel)
  from Suc.prems(1) have m0: "0 \<le> maxDepth node"
    and ch: "\<forall>c\<in>set (stateTreeNodes node). maxDepth c < maxDepth node \<and> depthOK c"
    using depthOK_iff [of node] by auto
  have old: "addRecursive fp fuel c s \<noteq> None" if "c \<in> set (stateTreeNodes node)" for c
  proof -
    from ch that have "depthOK c" "maxDepth c < maxDepth node" by auto
    moreover from \<open>depthOK c\<close> have "0 \<le> maxDepth c" using depthOK_iff [of c] by simp
    ultimately show ?thesis using Suc.prems(2) by (intro Suc.IH) auto
  qed
  have new: "addRecursive fp fuel c s \<noteq> None"
    if "c \<in> set (createChildren fp node)" "maxDepth node \<noteq> 0" for c
  proof -
    from that m0 have "depthOK c \<and> maxDepth c = maxDepth node - 1"
      by (intro createChildren_depthOK) auto
    with that m0 Suc.prems(2) show ?thesis by (intro Suc.IH) auto
  qed
  have t1: "tryChildren (\<lambda>child. addRecursive fp fuel child s) (stateTreeNodes node) \<noteq> None"
    by (rule tryChildren_total) (use old in blast)
  have t2: "tryChildren (\<lambda>child. addRecursive fp fuel child s) (createChildren fp node) \<noteq> None"
    if "maxDepth node \<noteq> 0"
    by (rule tryChildren_total) (use new that in blast)
  show ?case
  proof (cases "maxDepth node = 0")
    case True
    then show ?thesis by (auto split: extent_value.splits)
  next
    case False
    with t1 t2 show ?thesis
      by (auto simp: Let_def split: extent_value.splits option.splits sum.splits prod.splits)
  qed
qed

lemma tryChildren_preserves:
  assumes "tryChildren f cs = Some (Inr (b, cs'))"
    and "\<forall>c\<in>set cs. Q c"
    and "\<And>c b c'. c \<in> set cs \<Longrightarrow> f c = Some (Inr (b, c')) \<Longrightarrow> Q c'"
  shows "\<forall>c'\<in>set cs'. Q c'"
  using assms
proof (induction cs arbitrary: b cs')
  case Nil
  then show ?case by simp
next
  case (Cons c cs)
  from Cons.prems(1) obtain b1 c1 where fc: "f c = Some (Inr (b1, c1))"
    by (auto split: option.splits sum.splits prod.splits)
  have q1: "Q c1" using Cons.prems(3) [of c b1 c1] fc by simp
  show ?case
  proof (cases b1)
    case True
    with Cons.prems(1) fc have "cs' = c1 # cs" by simp
    with q1 Cons.prems(2) show ?thesis by simp
  next
    case False
    with Cons.prems(1) fc obtain cs2 where
      rest: "tryChildren f cs = Some (Inr (b, cs2))" and cs': "cs' = c1 # cs2"
      by (auto split: option.splits sum.splits prod.splits)
    have "\<forall>c'\<in>set cs2. Q c'"
      by (rule Cons.IH [OF rest]) (use Cons.prems in auto)
    with q1 cs' show ?thesis by simp
  qed
qed

lemma addRecursive_depthOK:
  "depthOK node \<Longrightarrow> addRecursive fp fuel node s = Some (Inr (b, node')) \<Longrightarrow>
     depthOK node' \<and> maxDepth node' = maxDepth node"
proof (induction fuel arbitrary: node b node')
  case 0
  then show ?case by simp
next
  case (Suc fuel)
  let ?Q = "\<lambda>c. maxDepth c < maxDepth node \<and> depthOK c"
  from Suc.prems(1) have m0: "0 \<le> maxDepth node"
    and ch: "\<forall>c\<in>set (stateTreeNodes node). ?Q c"
    using depthOK_iff [of node] by auto
  have step: "?Q c'" if "?Q c" "addRecursive fp fuel c s = Some (Inr (b, c'))" for c b c'
    using Suc.IH [of c b c'] that by simp
  have keep: "\<forall>c'\<in>set cs'. ?Q c'"
    if "tryChildren (\<lambda>child. addRecursive fp fuel child s) cs = Some (Inr (b, cs'))"
      "\<forall>c\<in>set cs. ?Q c" for cs b cs'
    by (rule tryChildren_preserves [OF that]) (use step that in blast)
  have fresh: "\<forall>c\<in>set (createChildren fp node). ?Q c" if "maxDepth node \<noteq> 0"
    using createChildren_depthOK [of node _ fp] that m0 by auto
  from Suc.prems(2) show ?case
  proof (cases "extent s")
    case Infinity
    with Suc.prems show ?thesis
      using depthOK_iff [of node] depthOK_iff [of "pushState s node"] by auto
  next
    case (Finite e)
    show ?thesis
    proof (cases "stateTreeNodes node = []")
      case True
      with Finite Suc.prems(2) m0 ch fresh show ?thesis
        using depthOK_iff [of node] depthOK_iff [of node'] Suc.prems(1)
        by (auto simp: Let_def split: if_splits option.splits sum.splits prod.splits
            dest!: keep)
    next
      case False
      with Finite Suc.prems(2) m0 ch show ?thesis
        using depthOK_iff [of node] depthOK_iff [of node'] Suc.prems(1)
        by (auto simp: Let_def split: if_splits option.splits sum.splits prod.splits
            dest!: keep)
    qed
  qed
qed

lemma add_total:
  "depthOK node \<Longrightarrow> nat (maxDepth node) < fuel \<Longrightarrow> add fp fuel node s \<noteq> None"
  using addRecursive_total [of node fuel fp s]
  by (auto simp: add_def split: option.splits sum.splits prod.splits)

lemma add_depthOK:
  "depthOK node \<Longrightarrow> add fp fuel node s = Some (Inr node') \<Longrightarrow>
     depthOK node' \<and> maxDepth node' = maxDepth node"
  by (auto simp: add_def split: if_splits option.splits sum.splits prod.splits
      dest: addRecursive_depthOK)

lemma addAll_total:
  "depthOK node \<Longrightarrow> nat (maxDepth node) < fuel \<Longrightarrow> addAll fp fuel node sts \<noteq> None"
proof (induction sts arbitrary: node)
  case Nil
  then show ?case by simp
next
  case (Cons s sts)
  show ?case
  proof (cases "add fp fuel node s")
    case None
    with add_total [OF Cons.prems, of fp s] show ?thesis by simp
  next
    case (Some r)
    show ?thesis
    proof (cases r)
      case (Inl e)
      with Some show ?thesis by simp
    next
      case (Inr node')
      with Some add_depthOK [OF Cons.prems(1), of fp fuel s node'] Cons.prems(2)
      have "addAll fp fuel node' sts \<noteq> None" by (intro Cons.IH) auto
      with Some Inr show ?thesis by simp
    qed
  qed
qed

lemma fromStateSet_total:
  "0 \<le> md \<Longrightarrow> nat md < fuel \<Longrightarrow> StateTreeNode_fromStateSet fp fuel sts md \<noteq> None"
proof -
  assume md: "0 \<le> md" "nat md < fuel"
  have "addAll fp fuel (StateTreeNode [] [] c h md n) sts \<noteq> None" for c h n
    by (rule addAll_total) (use md in auto)
  then show ?thesis
    by (auto simp: StateTreeNode_fromStateSet_def simp del: addAll.simps
        split: list.splits sum.splits prod.splits)
qed

text \<open>The errors of the constructor from a state set, by the place that raises them.\<close>

lemma forEach_error:
  "(\<And>x st err. x \<in> set xs \<Longrightarrow> body x st = Inl err \<Longrightarrow> err = OutOfRange)
     \<Longrightarrow> forEach xs body st = Inl err \<Longrightarrow> err = OutOfRange"
proof (induction xs arbitrary: st)
  case Nil
  then show ?case by simp
next
  case (Cons x xs)
  show ?case
  proof (cases "body x st")
    case (Inl e)
    with Cons.prems(2) have "e = err" by simp
    with Cons.prems(1) [of x st e] Inl show ?thesis by simp
  next
    case (Inr st')
    with Cons.prems(2) have "forEach xs body st' = Inl err" by simp
    then show ?thesis by (rule Cons.IH [rotated]) (use Cons.prems(1) in auto)
  qed
qed

lemma widen_error:
  "widen fp k s box = Inl err \<Longrightarrow> err = OutOfRange"
  unfolding widen_def
  by (cases "extent s") (auto elim!: forEach_error [rotated] split: if_splits prod.splits)

lemma boundingBox_error:
  "boundingBox fp d0 k sts = Inl err \<Longrightarrow> err = OutOfRange"
proof (induction sts)
  case Nil
  then show ?case by simp
next
  case (Cons s sts)
  show ?case
  proof (cases "extent s")
    case Infinity
    with Cons show ?thesis by simp
  next
    case (Finite e)
    show ?thesis
    proof (cases "stateBounds fp k s e")
      case (Inl e')
      with Finite Cons.prems show ?thesis
        by (auto simp: stateBounds_def split: if_splits)
    next
      case (Inr box)
      with Finite Cons.prems have "forEach (s # sts) (widen fp k) box = Inl err"
        by (simp del: forEach.simps)
      then show ?thesis
        by (rule forEach_error [rotated]) (rule widen_error)
    qed
  qed
qed

lemma add_error:
  "add fp fuel node s = Some (Inl err) \<Longrightarrow>
     err = OutOfRange \<or> err = Exit ''StateTreeNode::add(): Incompatible dimenstions.'' \<or>
     err = Exit ''StateTreeNode::add(): Unable to add state to state tree.''"
proof -
  assume a: "add fp fuel node s = Some (Inl err)"
  show ?thesis
  proof (cases "length (coordinates s) \<noteq> length (center node)")
    case True
    with a show ?thesis by (simp add: add_def)
  next
    case False
    show ?thesis
    proof (cases "addRecursive fp fuel node s")
      case None
      with a False show ?thesis by (simp add: add_def)
    next
      case (Some r)
      show ?thesis
      proof (cases r)
        case (Inl e)
        with Some have "addRecursive fp fuel node s = Some (Inl e)" by (simp only:)
        then have "e = OutOfRange" by (rule addRecursive_error)
        with a False Some Inl show ?thesis by (simp add: add_def)
      next
        case (Inr br)
        with a False Some show ?thesis
          by (cases br) (auto simp: add_def split: if_splits)
      qed
    qed
  qed
qed

lemma addAll_error:
  "addAll fp fuel node sts = Some (Inl err) \<Longrightarrow>
     err = OutOfRange \<or> err = Exit ''StateTreeNode::add(): Incompatible dimenstions.'' \<or>
     err = Exit ''StateTreeNode::add(): Unable to add state to state tree.''"
proof (induction sts arbitrary: node)
  case Nil
  then show ?case by simp
next
  case (Cons s sts)
  show ?case
  proof (cases "add fp fuel node s")
    case None
    with Cons.prems show ?thesis by simp
  next
    case (Some r)
    show ?thesis
    proof (cases r)
      case (Inl e)
      with Some Cons.prems have "add fp fuel node s = Some (Inl err)" by simp
      then show ?thesis by (rule add_error)
    next
      case (Inr node')
      with Some Cons.prems have "addAll fp fuel node' sts = Some (Inl err)" by simp
      then show ?thesis by (rule Cons.IH)
    qed
  qed
qed

lemma fromStateSet_error:
  assumes "\<forall>s\<in>set sts. coordinates s \<noteq> []"
    and "StateTreeNode_fromStateSet fp fuel sts md = Some (Inl err)"
  shows "err = OutOfRange \<or> err = Exit ''StateTreeNode::add(): Incompatible dimenstions.'' \<or>
     err = Exit ''StateTreeNode::add(): Unable to add state to state tree.''"
proof (cases sts)
  case Nil
  with assms(2) show ?thesis by (simp add: StateTreeNode_fromStateSet_def)
next
  case (Cons state0 rest)
  from assms(1) Cons have "\<forall>s\<in>set rest. coordinates s \<noteq> []" by simp
  from assertDimensions_nonempty [OF this, of "length (coordinates state0)"]
  obtain k where k: "assertDimensions rest (length (coordinates state0)) = Inr k" by blast
  show ?thesis
  proof (cases "boundingBox fp (length (coordinates state0)) k sts")
    case (Inl e)
    then have "e = OutOfRange" by (rule boundingBox_error)
    with assms(2) Cons k Inl show ?thesis
      by (simp add: StateTreeNode_fromStateSet_def del: boundingBox.simps addAll.simps)
  next
    case (Inr box)
    obtain min' max' where box: "box = (min', max')" by (cases box)
    show ?thesis
    proof (cases "length min' < k")
      case True
      with assms(2) Cons k Inr box show ?thesis
        by (simp add: StateTreeNode_fromStateSet_def del: boundingBox.simps addAll.simps)
    next
      case False
      with assms(2) Cons k Inr box obtain tree where
        "addAll fp fuel tree sts = Some (Inl err)"
        by (simp add: StateTreeNode_fromStateSet_def del: boundingBox.simps addAll.simps)
      then show ?thesis by (rule addAll_error)
    qed
  qed
qed

text \<open>
  With a negative depth the descent need not end. The root for the three point states at
  the origin with 1, 2 and 1 coordinates has half size 0; with \<^verbatim>\<open>maxDepth = -1\<close> it
  creates a child with the same center and half size and a smaller depth, and so does
  every child: no number of nested calls suffices.
\<close>

lemma addRecursive_negative_depth:
  "stateTreeNodes node = [] \<Longrightarrow> center node = [0] \<Longrightarrow> halfSize node = 0 \<Longrightarrow>
     maxDepth node < 0 \<Longrightarrow> 0 < numSpacePartitions node \<Longrightarrow>
     addRecursive exact fuel node \<lparr> stateID = i, coordinates = [0], extent = Finite 0 \<rparr> = None"
proof (induction fuel arbitrary: node)
  case 0
  show ?case by simp
next
  case (Suc fuel)
  let ?s = "\<lparr> stateID = i, coordinates = [0], extent = Finite 0 \<rparr>"
  let ?child = "StateTreeNode_ctor [0] 0 (maxDepth node - 1)"
  from Suc.prems(5) have "[0..<nat (numSpacePartitions node)] = 0 # [1..<nat (numSpacePartitions node)]"
    by (simp add: upt_conv_Cons)
  then obtain others where ch: "createChildren exact node = ?child # others"
    using Suc.prems(2,3) by (simp add: createChildren_def)
  have "addRecursive exact fuel ?child ?s = None"
    by (rule Suc.IH) (use Suc.prems(4) in \<open>simp_all add: StateTreeNode_ctor_def\<close>)
  then have "tryChildren (\<lambda>child. addRecursive exact fuel child ?s) (?child # others) = None"
    by simp
  with Suc.prems ch show ?case
    by (simp add: largestRelativeCoordinate_def Let_def del: tryChildren.simps)
qed

lemma fromStateSet_negative_depth:
  "StateTreeNode_fromStateSet exact fuel
     [\<lparr> stateID = 0, coordinates = [0], extent = Finite 0 \<rparr>,
      \<lparr> stateID = 1, coordinates = [0, 0], extent = Finite 0 \<rparr>,
      \<lparr> stateID = 2, coordinates = [0], extent = Finite 0 \<rparr>] (-1) = None"
proof -
  have "addRecursive exact fuel (StateTreeNode [] [] [0] 0 (-1) 1)
      \<lparr> stateID = 0, coordinates = [0], extent = Finite 0 \<rparr> = None"
    by (rule addRecursive_negative_depth) simp_all
  then show ?thesis
    by (simp add: StateTreeNode_fromStateSet_def assertDimensions_def stateBounds_def widen_def
        add_def)
qed

text \<open>
  C10, as the code has it. When every state has at least one coordinate, the dimension
  assertion of the constructor cannot fail: its loop ends with \<^verbatim>\<open>numCoordinates\<close> set to
  the dimension of the last state. A state set with differing dimensions is still not
  accepted: no run of the constructor returns a tree, whatever the depth, the arithmetic
  and the number of nested calls. With a depth that is not negative the constructor
  returns (more nested calls than the depth are not needed), and it ends in an
  out-of-range access or in one of the two fatal errors of \<^verbatim>\<open>add\<close>.
\<close>

theorem C10_mixed_dimensions_not_accepted:
  assumes "\<forall>s\<in>set (state0 # rest). coordinates s \<noteq> []"
  shows "assertDimensions rest (length (coordinates state0)) =
           Inr (length (coordinates (last (state0 # rest)))) \<and>
         ((\<exists>s\<in>set (state0 # rest). length (coordinates s) \<noteq> length (coordinates state0)) \<longrightarrow>
          (\<forall>t. StateTreeNode_fromStateSet fp fuel (state0 # rest) md \<noteq> Some (Inr t)) \<and>
          (0 \<le> md \<and> nat md < fuel \<longrightarrow>
             StateTreeNode_fromStateSet fp fuel (state0 # rest) md = Some (Inl OutOfRange) \<or>
             StateTreeNode_fromStateSet fp fuel (state0 # rest) md =
               Some (Inl (Exit ''StateTreeNode::add(): Incompatible dimenstions.'')) \<or>
             StateTreeNode_fromStateSet fp fuel (state0 # rest) md =
               Some (Inl (Exit ''StateTreeNode::add(): Unable to add state to state tree.''))))"
proof
  from assms show "assertDimensions rest (length (coordinates state0)) =
           Inr (length (coordinates (last (state0 # rest))))"
    by (simp add: assertDimensions_nonempty)
next
  let ?r = "StateTreeNode_fromStateSet fp fuel (state0 # rest) md"
  show "(\<exists>s\<in>set (state0 # rest). length (coordinates s) \<noteq> length (coordinates state0)) \<longrightarrow>
          (\<forall>t. ?r \<noteq> Some (Inr t)) \<and>
          (0 \<le> md \<and> nat md < fuel \<longrightarrow>
             ?r = Some (Inl OutOfRange) \<or>
             ?r = Some (Inl (Exit ''StateTreeNode::add(): Incompatible dimenstions.'')) \<or>
             ?r = Some (Inl (Exit ''StateTreeNode::add(): Unable to add state to state tree.'')))"
  proof (intro impI)
    assume mixed: "\<exists>s\<in>set (state0 # rest). length (coordinates s) \<noteq> length (coordinates state0)"
    have no: "?r \<noteq> Some (Inr t)" for t
    proof
      assume "?r = Some (Inr t)"
      then have "\<forall>s\<in>set (state0 # rest). length (coordinates s) = length (center t)"
        by (rule fromStateSet_dimensions)
      with mixed show False by auto
    qed
    have "?r = Some (Inl OutOfRange) \<or>
          ?r = Some (Inl (Exit ''StateTreeNode::add(): Incompatible dimenstions.'')) \<or>
          ?r = Some (Inl (Exit ''StateTreeNode::add(): Unable to add state to state tree.''))"
      if "0 \<le> md \<and> nat md < fuel"
    proof (cases ?r)
      case None
      with fromStateSet_total [of md fuel fp "state0 # rest"] that show ?thesis by simp
    next
      case (Some r)
      show ?thesis
      proof (cases r)
        case (Inl err)
        with Some have "?r = Some (Inl err)" by (simp only:)
        from fromStateSet_error [OF assms this] Some Inl show ?thesis by auto
      next
        case (Inr t)
        with Some no [of t] show ?thesis by simp
      qed
    qed
    with no show "(\<forall>t. ?r \<noteq> Some (Inr t)) \<and>
          (0 \<le> md \<and> nat md < fuel \<longrightarrow>
             ?r = Some (Inl OutOfRange) \<or>
             ?r = Some (Inl (Exit ''StateTreeNode::add(): Incompatible dimenstions.'')) \<or>
             ?r = Some (Inl (Exit ''StateTreeNode::add(): Unable to add state to state tree.'')))"
      by blast
  qed
qed

theorem C10_mixed_dimensions_not_accepted_witness:
  "assertDimensions [\<lparr> stateID = 1, coordinates = [0], extent = Finite 1 \<rparr>]
       (length (coordinates \<lparr> stateID = 0, coordinates = [0, 0], extent = Finite 1 \<rparr>)) = Inr 1 \<and>
   (StateTreeNode_fromStateSet exact 2
           [\<lparr> stateID = 0, coordinates = [0, 0], extent = Finite 1 \<rparr>,
            \<lparr> stateID = 1, coordinates = [0], extent = Finite 1 \<rparr>] 1 = Some (Inl OutOfRange) \<or>
    StateTreeNode_fromStateSet exact 2
           [\<lparr> stateID = 0, coordinates = [0, 0], extent = Finite 1 \<rparr>,
            \<lparr> stateID = 1, coordinates = [0], extent = Finite 1 \<rparr>] 1 =
      Some (Inl (Exit ''StateTreeNode::add(): Incompatible dimenstions.'')) \<or>
    StateTreeNode_fromStateSet exact 2
           [\<lparr> stateID = 0, coordinates = [0, 0], extent = Finite 1 \<rparr>,
            \<lparr> stateID = 1, coordinates = [0], extent = Finite 1 \<rparr>] 1 =
      Some (Inl (Exit ''StateTreeNode::add(): Unable to add state to state tree.'')))"
  using C10_mixed_dimensions_not_accepted
    [of "\<lparr> stateID = 0, coordinates = [0, 0], extent = Finite 1 \<rparr>"
        "[\<lparr> stateID = 1, coordinates = [0], extent = Finite 1 \<rparr>]" exact 2 1]
  by simp

text \<open>
  C10, as stated, fails: for a state with two coordinates followed by a state with one,
  the constructor reports the error of incompatible dimensions, raised by the \<^verbatim>\<open>add\<close>
  it calls for the first state. The bounds of this run are \<open>-1\<close> and 1, their sum 0 and
  their difference 2: no operation rounds.
\<close>

theorem C10_mixed_dimensions_error_counterexample:
  "StateTreeNode_fromStateSet exact 2
     [\<lparr> stateID = 0, coordinates = [0, 0], extent = Finite 1 \<rparr>,
      \<lparr> stateID = 1, coordinates = [0], extent = Finite 1 \<rparr>] 1
   = Some (Inl (Exit ''StateTreeNode::add(): Incompatible dimenstions.''))"
  by (simp add: StateTreeNode_fromStateSet_def assertDimensions_def stateBounds_def widen_def
        add_def)

subsection \<open>Queries at the position of a stored state\<close>












lemma halfSize_pushState [simp]: "halfSize (pushState s node) = halfSize node"
  by (simp add: pushState_def)

lemma halfSize_setChildren [simp]: "halfSize (setChildren cs node) = halfSize node"
  by (simp add: setChildren_def)

lemma states_pushState [simp]: "states (pushState s node) = states node @ [s]"
  by (simp add: pushState_def)

lemma states_setChildren [simp]: "states (setChildren cs node) = states node"
  by (simp add: setChildren_def)




lemma dimOK_ctor: "dimOK (length c) (StateTreeNode_ctor c h m)"
  by (simp add: StateTreeNode_ctor_def)













end
